theory Spec2Isabelle
  imports Main "HOL-Library.Word"
begin

unbundle bit_operations_syntax

section \<open>Targets and the fundamental types of \<^verbatim>\<open>non_heap_bstr.h\<close>\<close>

text \<open>
  The header is compiled either with \<^verbatim>\<open>_WIN64\<close> defined or without it. The target fixes
  the width of \<^verbatim>\<open>size_t\<close> and of \<^verbatim>\<open>__int3264\<close>; \<^verbatim>\<open>WCHAR\<close> is two bytes and \<^verbatim>\<open>UINT\<close> four
  bytes on both.
\<close>

datatype target = Win32 | Win64

fun size_bits :: "target \<Rightarrow> nat" where
  "size_bits Win32 = 32"
| "size_bits Win64 = 64"

fun sizeof_int3264 :: "target \<Rightarrow> nat" where
  "sizeof_int3264 Win32 = 4"
| "sizeof_int3264 Win64 = 8"

definition sizeof_WCHAR :: nat where
  "sizeof_WCHAR = 2"

definition sizeof_UINT :: nat where
  "sizeof_UINT = 4"

text \<open>
  Arithmetic in \<^verbatim>\<open>size_t\<close>, on naturals with the wrap-around written out: \<open>size_t t x\<close> is
  the conversion of \<open>x\<close> to \<^verbatim>\<open>size_t\<close>, \<open>size_t_not t x\<close> is \<^verbatim>\<open>~x\<close> at that width.
\<close>

definition size_t :: "target \<Rightarrow> nat \<Rightarrow> nat" where
  "size_t t x = x mod 2 ^ size_bits t"

definition size_t_not :: "target \<Rightarrow> nat \<Rightarrow> nat" where
  "size_t_not t x = 2 ^ size_bits t - 1 - size_t t x"

section \<open>Array bounds of \<^verbatim>\<open>INTERNAL_BSTR_CONTAINER__\<close>\<close>

text \<open>
  The byte count is the value of the macro argument, of a type no wider than \<^verbatim>\<open>size_t\<close>:
  with the \<^verbatim>\<open>sizeof\<close> operands the bound is computed in \<^verbatim>\<open>size_t\<close>.

  \<^verbatim>\<open>WCHAR bstr[((bytecount_) / sizeof(WCHAR) + sizeof(__int3264) / sizeof(WCHAR))
               & ~(sizeof(__int3264) / sizeof(WCHAR) - 1)];\<close>
\<close>

definition bstr_count :: "target \<Rightarrow> nat \<Rightarrow> nat" where
  "bstr_count t bytecount =
     size_t t (size_t t bytecount div sizeof_WCHAR + sizeof_int3264 t div sizeof_WCHAR)
       AND size_t_not t (sizeof_int3264 t div sizeof_WCHAR - 1)"

text \<open>
  \<^verbatim>\<open>char bytestr[((bytecount_) + sizeof(__int3264)) & ~(sizeof(__int3264) - 1)];\<close>
\<close>

definition bytestr_count :: "target \<Rightarrow> nat \<Rightarrow> nat" where
  "bytestr_count t bytecount =
     size_t t (size_t t bytecount + sizeof_int3264 t)
       AND size_t_not t (sizeof_int3264 t - 1)"

text \<open>The rounding the specification names: \<open>round_up(n, w) = (n + w) & ~(w - 1)\<close>.\<close>

definition round_up :: "target \<Rightarrow> nat \<Rightarrow> nat \<Rightarrow> nat" where
  "round_up t n w = size_t t (size_t t n + w) AND size_t_not t (w - 1)"

text \<open>
  A C array declaration is well formed when its bound is positive and the size of the
  array is a value of \<^verbatim>\<open>size_t\<close>. \<open>declarable t bytecount\<close> says so of both arrays of the
  container's buffer.
\<close>

definition declarable :: "target \<Rightarrow> nat \<Rightarrow> bool" where
  "declarable t bytecount \<longleftrightarrow>
     0 < bstr_count t bytecount \<and> bstr_count t bytecount * sizeof_WCHAR < 2 ^ size_bits t \<and>
     0 < bytestr_count t bytecount \<and> bytestr_count t bytecount < 2 ^ size_bits t"

section \<open>C object types and their layout\<close>

text \<open>
  The aggregates the macros declare, as data. Scalars are naturally aligned (the size of
  a scalar is its alignment, as for \<^verbatim>\<open>char\<close>, \<^verbatim>\<open>WCHAR\<close>, \<^verbatim>\<open>__int32\<close>, \<^verbatim>\<open>UINT\<close> and
  \<^verbatim>\<open>__int64\<close> on Windows). A member is placed at the next multiple of its alignment, an
  aggregate is aligned as its strictest member and padded to a multiple of that, all
  members of a union start at offset 0. Anonymous members carry a name here only so
  that a path can step through them.
\<close>

datatype ctype =
    Scalar nat
  | Array ctype nat
  | Struct "(string \<times> ctype) list"
  | Union "(string \<times> ctype) list"

definition align_up :: "nat \<Rightarrow> nat \<Rightarrow> nat" where
  "align_up a x = ((x + a - 1) div a) * a"

fun alignof :: "ctype \<Rightarrow> nat" where
  "alignof (Scalar n) = n"
| "alignof (Array ty k) = alignof ty"
| "alignof (Struct ms) = fold max (map (\<lambda>m. alignof (snd m)) ms) 1"
| "alignof (Union ms) = fold max (map (\<lambda>m. alignof (snd m)) ms) 1"

text \<open>
  Members, given as (name, alignment, size), are laid out one after the other from
  offset \<open>off\<close>: \<open>member_offsets\<close> is the offset of each, \<open>members_end\<close> the offset after
  the last.
\<close>

fun member_offsets :: "(string \<times> nat \<times> nat) list \<Rightarrow> nat \<Rightarrow> (string \<times> nat) list" where
  "member_offsets [] off = []"
| "member_offsets ((name, a, s) # ms) off =
     (name, align_up a off) # member_offsets ms (align_up a off + s)"

fun members_end :: "(string \<times> nat \<times> nat) list \<Rightarrow> nat \<Rightarrow> nat" where
  "members_end [] off = off"
| "members_end ((name, a, s) # ms) off = members_end ms (align_up a off + s)"

fun sizeof :: "ctype \<Rightarrow> nat" where
  "sizeof (Scalar n) = n"
| "sizeof (Array ty k) = k * sizeof ty"
| "sizeof (Struct ms) =
     align_up (alignof (Struct ms))
       (members_end (map (\<lambda>m. (fst m, alignof (snd m), sizeof (snd m))) ms) 0)"
| "sizeof (Union ms) =
     align_up (alignof (Union ms)) (fold max (map (\<lambda>m. sizeof (snd m)) ms) 0)"

text \<open>The offset and the type of a direct member.\<close>

fun member :: "ctype \<Rightarrow> string \<Rightarrow> (nat \<times> ctype) option" where
  "member (Struct ms) name =
     (case map_of ms name of
        None \<Rightarrow> None
      | Some ty \<Rightarrow>
          (case map_of (member_offsets (map (\<lambda>m. (fst m, alignof (snd m), sizeof (snd m))) ms) 0)
                  name of
             None \<Rightarrow> None
           | Some off \<Rightarrow> Some (off, ty)))"
| "member (Union ms) name = (case map_of ms name of None \<Rightarrow> None | Some ty \<Rightarrow> Some (0, ty))"
| "member _ name = None"

text \<open>\<^verbatim>\<open>offsetof\<close> along a path of member names; \<open>None\<close> when the path names no member.\<close>

fun offsetof :: "ctype \<Rightarrow> string list \<Rightarrow> nat option" where
  "offsetof ty [] = Some 0"
| "offsetof ty (name # path) =
     (case member ty name of
        None \<Rightarrow> None
      | Some (off, ty') \<Rightarrow>
          (case offsetof ty' path of None \<Rightarrow> None | Some off' \<Rightarrow> Some (off + off')))"

text \<open>The type of the member a path leads to.\<close>

fun typeof_member :: "ctype \<Rightarrow> string list \<Rightarrow> ctype option" where
  "typeof_member ty [] = Some ty"
| "typeof_member ty (name # path) =
     (case member ty name of None \<Rightarrow> None | Some (off, ty') \<Rightarrow> typeof_member ty' path)"

definition ty_char :: ctype where
  "ty_char = Scalar 1"

definition ty_WCHAR :: ctype where
  "ty_WCHAR = Scalar sizeof_WCHAR"

definition ty_UINT :: ctype where
  "ty_UINT = Scalar sizeof_UINT"

definition ty_int32 :: ctype where
  "ty_int32 = Scalar 4"

definition ty_int64 :: ctype where
  "ty_int64 = Scalar 8"

text \<open>
  \<^verbatim>\<open>INTERNAL_BSTR_CONTAINER_LENGTH_PREFIX__\<close>: with \<^verbatim>\<open>_WIN64\<close> an anonymous union of the struct
  \<^verbatim>\<open>prefix\<close> (\<^verbatim>\<open>margin_dummy\<close>, \<^verbatim>\<open>length\<close>) and \<^verbatim>\<open>alignment_dummy\<close>; without it the struct
  \<^verbatim>\<open>prefix\<close> holding \<^verbatim>\<open>length\<close> alone.
\<close>

fun INTERNAL_BSTR_CONTAINER_LENGTH_PREFIX :: "target \<Rightarrow> string \<times> ctype" where
  "INTERNAL_BSTR_CONTAINER_LENGTH_PREFIX Win64 =
     (''anonymous_prefix'',
      Union [(''prefix'', Struct [(''margin_dummy'', ty_int32), (''length'', ty_UINT)]),
             (''alignment_dummy'', ty_int64)])"
| "INTERNAL_BSTR_CONTAINER_LENGTH_PREFIX Win32 =
     (''prefix'', Struct [(''length'', ty_UINT)])"

text \<open>The path of \<^verbatim>\<open>.prefix.length\<close> in the container.\<close>

fun length_path :: "target \<Rightarrow> string list" where
  "length_path Win64 = [''anonymous_prefix'', ''prefix'', ''length'']"
| "length_path Win32 = [''prefix'', ''length'']"

text \<open>\<^verbatim>\<open>INTERNAL_BSTR_CONTAINER__(varname_, bytecount_)\<close>: the type \<^verbatim>\<open>struct tag_varname_\<close>.\<close>

definition INTERNAL_BSTR_CONTAINER :: "target \<Rightarrow> nat \<Rightarrow> ctype" where
  "INTERNAL_BSTR_CONTAINER t bytecount =
     Struct [INTERNAL_BSTR_CONTAINER_LENGTH_PREFIX t,
             (''anonymous_buffer'',
              Union [(''bstr'', Array ty_WCHAR (bstr_count t bytecount)),
                     (''bytestr'', Array ty_char (bytestr_count t bytecount))])]"

definition bstr_path :: "string list" where
  "bstr_path = [''anonymous_buffer'', ''bstr'']"

definition bytestr_path :: "string list" where
  "bytestr_path = [''anonymous_buffer'', ''bytestr'']"

text \<open>
  \<^verbatim>\<open>BSTR_CONTAINER(varname_, bufcount_)\<close> passes \<^verbatim>\<open>(bufcount_) * sizeof(WCHAR)\<close>,
  \<^verbatim>\<open>BSTR_BYTE_CONTAINER(varname_, bufsize_)\<close> passes \<^verbatim>\<open>bufsize_\<close>.
\<close>

definition BSTR_CONTAINER :: "target \<Rightarrow> nat \<Rightarrow> ctype" where
  "BSTR_CONTAINER t bufcount = INTERNAL_BSTR_CONTAINER t (bufcount * sizeof_WCHAR)"

definition BSTR_BYTE_CONTAINER :: "target \<Rightarrow> nat \<Rightarrow> ctype" where
  "BSTR_BYTE_CONTAINER t bufsize = INTERNAL_BSTR_CONTAINER t bufsize"

section \<open>Memory\<close>

text \<open>
  A flat, byte-addressed memory. Windows targets are little-endian: a \<^verbatim>\<open>UINT\<close> at address
  \<open>a\<close> has its least significant byte at \<open>a\<close>, a \<^verbatim>\<open>WCHAR\<close> likewise.
\<close>

type_synonym byte = "8 word"

type_synonym memory = "nat \<Rightarrow> byte"

definition store_bytes :: "memory \<Rightarrow> nat \<Rightarrow> byte list \<Rightarrow> memory" where
  "store_bytes mem a bs = (\<lambda>x. if a \<le> x \<and> x < a + length bs then bs ! (x - a) else mem x)"

definition UINT_bytes :: "32 word \<Rightarrow> byte list" where
  "UINT_bytes v = [ucast v, ucast (drop_bit 8 v), ucast (drop_bit 16 v), ucast (drop_bit 24 v)]"

definition WCHAR_bytes :: "16 word \<Rightarrow> byte list" where
  "WCHAR_bytes c = [ucast c, ucast (drop_bit 8 c)]"

definition load_UINT :: "memory \<Rightarrow> nat \<Rightarrow> 32 word" where
  "load_UINT mem a =
     ucast (mem a) OR push_bit 8 (ucast (mem (a + 1))) OR
     push_bit 16 (ucast (mem (a + 2))) OR push_bit 24 (ucast (mem (a + 3)))"

definition store_UINT :: "memory \<Rightarrow> nat \<Rightarrow> 32 word \<Rightarrow> memory" where
  "store_UINT mem a v = store_bytes mem a (UINT_bytes v)"

text \<open>The address of a member of an object of type \<open>ty\<close> that starts at \<open>base\<close>.\<close>

definition member_address :: "ctype \<Rightarrow> string list \<Rightarrow> nat \<Rightarrow> nat" where
  "member_address ty path base = base + the (offsetof ty path)"

text \<open>
  Zero-initialisation of an object: what static storage gets before the program starts,
  and what an initializer list leaves in every member it does not name.
\<close>

definition zero_object :: "ctype \<Rightarrow> nat \<Rightarrow> memory \<Rightarrow> memory" where
  "zero_object ty base mem = store_bytes mem base (replicate (sizeof ty) 0)"

section \<open>Length accessors\<close>

text \<open>
  \<^verbatim>\<open>((UINT *)(void *)(bstr_))[-1]\<close> is the \<^verbatim>\<open>UINT\<close> at address \<^verbatim>\<open>bstr_ - sizeof(UINT)\<close>. The
  macros do not check the handle: for a handle below \<open>sizeof_UINT\<close> the C expression is
  undefined, and the theorems that depend on the address assume \<open>sizeof_UINT \<le> bstr\<close>.

  The length argument is the value of the macro argument, a natural number. The cast
  \<^verbatim>\<open>(UINT)\<close> reduces it modulo \<open>2 ^ 32\<close>, and so it does the product with
  \<^verbatim>\<open>sizeof(WCHAR)\<close>, whatever unsigned width the product was computed in.
\<close>

text \<open>\<^verbatim>\<open>#define GET_BSTR_LEN(bstr_) ((UINT)(((UINT *)(void *)(bstr_))[-1] / sizeof(WCHAR)))\<close>\<close>

definition GET_BSTR_LEN :: "memory \<Rightarrow> nat \<Rightarrow> 32 word" where
  "GET_BSTR_LEN mem bstr =
     word_of_nat (unat (load_UINT mem (bstr - sizeof_UINT)) div sizeof_WCHAR)"

text \<open>\<^verbatim>\<open>#define SET_BSTR_LEN(bstr_, length_)
  ((UINT *)(void *)(bstr_))[-1] = (UINT)((length_) * sizeof(WCHAR))\<close>\<close>

definition SET_BSTR_LEN :: "memory \<Rightarrow> nat \<Rightarrow> nat \<Rightarrow> memory" where
  "SET_BSTR_LEN mem bstr len =
     store_UINT mem (bstr - sizeof_UINT) (word_of_nat (len * sizeof_WCHAR))"

text \<open>\<^verbatim>\<open>#define GET_BSTR_BYTE_LEN(bstr_) (((UINT *)(void *)(bstr_))[-1])\<close>\<close>

definition GET_BSTR_BYTE_LEN :: "memory \<Rightarrow> nat \<Rightarrow> 32 word" where
  "GET_BSTR_BYTE_LEN mem bstr = load_UINT mem (bstr - sizeof_UINT)"

text \<open>\<^verbatim>\<open>#define SET_BSTR_BYTE_LEN(bstr_, length_)
  ((UINT *)(void *)(bstr_))[-1] = (UINT)(length_)\<close>\<close>

definition SET_BSTR_BYTE_LEN :: "memory \<Rightarrow> nat \<Rightarrow> nat \<Rightarrow> memory" where
  "SET_BSTR_BYTE_LEN mem bstr len = store_UINT mem (bstr - sizeof_UINT) (word_of_nat len)"

section \<open>Constructors\<close>

text \<open>
  A container object lives at an address \<open>base\<close>. Defining it with an initializer writes
  the object: at program start when it is \<^verbatim>\<open>static\<close>, when the definition is executed
  when it is automatic. Defining it without one writes nothing when it is automatic
  (the bytes stay what they were) and zero-initialises it when it is static.

  \<^verbatim>\<open>INITIALIZED_BSTR_CONTAINER(varname_, bufcount_, ...)\<close> is
  \<^verbatim>\<open>BSTR_CONTAINER(varname_, bufcount_) =
     { .prefix = { .length = ((bufcount_) - 1) * sizeof(WCHAR) }, .bstr = __VA_ARGS__ }\<close>.
  The length is computed in an unsigned type and converted to \<^verbatim>\<open>UINT\<close>, that is modulo
  \<open>2 ^ 32\<close>. \<open>init\<close> lists the array elements the initializer gives (for a string literal
  its characters and, where it fits, the terminating zero).
\<close>

definition INITIALIZED_BSTR_CONTAINER ::
    "target \<Rightarrow> nat \<Rightarrow> nat \<Rightarrow> 16 word list \<Rightarrow> memory \<Rightarrow> memory" where
  "INITIALIZED_BSTR_CONTAINER t base bufcount init mem =
     (let ty = BSTR_CONTAINER t bufcount;
          m0 = zero_object ty base mem;
          m1 = store_UINT m0 (member_address ty (length_path t) base)
                 ((word_of_nat bufcount - 1) * word_of_nat sizeof_WCHAR)
      in store_bytes m1 (member_address ty bstr_path base) (concat (map WCHAR_bytes init)))"

text \<open>
  \<^verbatim>\<open>INITIALIZED_BSTR_BYTE_CONTAINER(varname_, bufsize_, ...)\<close> is
  \<^verbatim>\<open>BSTR_BYTE_CONTAINER(varname_, bufsize_) =
     { .prefix = { .length = (bufsize_) - 1 }, .bytestr = __VA_ARGS__ }\<close>.
\<close>

definition INITIALIZED_BSTR_BYTE_CONTAINER ::
    "target \<Rightarrow> nat \<Rightarrow> nat \<Rightarrow> byte list \<Rightarrow> memory \<Rightarrow> memory" where
  "INITIALIZED_BSTR_BYTE_CONTAINER t base bufsize init mem =
     (let ty = BSTR_BYTE_CONTAINER t bufsize;
          m0 = zero_object ty base mem;
          m1 = store_UINT m0 (member_address ty (length_path t) base) (word_of_nat bufsize - 1)
      in store_bytes m1 (member_address ty bytestr_path base) init)"

section \<open>Scoped declaration wrappers\<close>

text \<open>
  Each \<^verbatim>\<open>MAKE_...\<close> macro declares the handle and, in a \<^verbatim>\<open>do { ... } while (0)\<close> block, a
  \<^verbatim>\<open>static\<close> container and the assignment \<^verbatim>\<open>varname_ = bstr_container_varname_.bstr\<close>.
  The static container is created once, before the program starts: \<open>..._startup\<close> is
  that initialisation. Executing the expansion is the assignment alone: it yields the
  handle and the memory it was given.
\<close>

definition MAKE_BSTR_startup :: "target \<Rightarrow> nat \<Rightarrow> nat \<Rightarrow> memory \<Rightarrow> memory" where
  "MAKE_BSTR_startup t base bufcount mem = zero_object (BSTR_CONTAINER t bufcount) base mem"

definition MAKE_BSTR :: "target \<Rightarrow> nat \<Rightarrow> nat \<Rightarrow> memory \<Rightarrow> nat \<times> memory" where
  "MAKE_BSTR t base bufcount mem =
     (member_address (BSTR_CONTAINER t bufcount) bstr_path base, mem)"

definition MAKE_INITIALIZED_BSTR_startup ::
    "target \<Rightarrow> nat \<Rightarrow> nat \<Rightarrow> 16 word list \<Rightarrow> memory \<Rightarrow> memory" where
  "MAKE_INITIALIZED_BSTR_startup t base bufcount init mem =
     INITIALIZED_BSTR_CONTAINER t base bufcount init mem"

definition MAKE_INITIALIZED_BSTR :: "target \<Rightarrow> nat \<Rightarrow> nat \<Rightarrow> memory \<Rightarrow> nat \<times> memory" where
  "MAKE_INITIALIZED_BSTR t base bufcount mem =
     (member_address (BSTR_CONTAINER t bufcount) bstr_path base, mem)"

definition MAKE_BSTR_BYTE_startup :: "target \<Rightarrow> nat \<Rightarrow> nat \<Rightarrow> memory \<Rightarrow> memory" where
  "MAKE_BSTR_BYTE_startup t base bufsize mem =
     zero_object (BSTR_BYTE_CONTAINER t bufsize) base mem"

definition MAKE_BSTR_BYTE :: "target \<Rightarrow> nat \<Rightarrow> nat \<Rightarrow> memory \<Rightarrow> nat \<times> memory" where
  "MAKE_BSTR_BYTE t base bufsize mem =
     (member_address (BSTR_BYTE_CONTAINER t bufsize) bstr_path base, mem)"

definition MAKE_INITIALIZED_BSTR_BYTE_startup ::
    "target \<Rightarrow> nat \<Rightarrow> nat \<Rightarrow> byte list \<Rightarrow> memory \<Rightarrow> memory" where
  "MAKE_INITIALIZED_BSTR_BYTE_startup t base bufsize init mem =
     INITIALIZED_BSTR_BYTE_CONTAINER t base bufsize init mem"

definition MAKE_INITIALIZED_BSTR_BYTE ::
    "target \<Rightarrow> nat \<Rightarrow> nat \<Rightarrow> memory \<Rightarrow> nat \<times> memory" where
  "MAKE_INITIALIZED_BSTR_BYTE t base bufsize mem =
     (member_address (BSTR_BYTE_CONTAINER t bufsize) bstr_path base, mem)"

text \<open>
  Inputs of the examples: the memory that is zero everywhere, and string literals as the
  array elements they give (the characters and the terminating zero).
\<close>

definition zero_memory :: memory where
  "zero_memory = (\<lambda>a. 0)"

definition byte_string_literal :: "string \<Rightarrow> byte list" where
  "byte_string_literal s = map of_char s @ [0]"

definition wide_string_literal :: "string \<Rightarrow> 16 word list" where
  "wide_string_literal s = map of_char s @ [0]"

section \<open>Facts about the array bounds\<close>

lemma and_high_mask:
  fixes x :: nat
  assumes "x < 2 ^ (k + m)"
  shows "x AND (2 ^ (k + m) - 1 - (2 ^ k - 1)) = x - x mod 2 ^ k"
proof -
  have a: "(2::nat) ^ (k + m) - 1 - (2 ^ k - 1) = push_bit k (mask m)"
    by (simp add: push_bit_eq_mult mask_eq_exp_minus_1 power_add algebra_simps)
  have b: "x - x mod 2 ^ k = push_bit k (drop_bit k x)"
    by (simp add: push_bit_eq_mult drop_bit_eq_div minus_mod_eq_div_mult)
  have c: "drop_bit k x < 2 ^ m"
    using assms by (simp add: drop_bit_eq_div power_add less_mult_imp_div_less mult.commute)
  have "x AND push_bit k (mask m) = push_bit k (drop_bit k x AND mask m)"
    by (rule bit_eqI) (auto simp add: bit_simps)
  also have "drop_bit k x AND mask m = drop_bit k x"
    using c by (simp flip: take_bit_eq_mask add: take_bit_nat_eq_self)
  finally show ?thesis by (simp only: a b)
qed

lemma size_t_mask:
  assumes "x < 2 ^ size_bits t"
  shows "x AND size_t_not t (sizeof_int3264 t - 1) = x - x mod sizeof_int3264 t"
    and "x AND size_t_not t (sizeof_int3264 t div sizeof_WCHAR - 1) = x - x mod (sizeof_int3264 t div sizeof_WCHAR)"
proof -
  show "x AND size_t_not t (sizeof_int3264 t - 1) = x - x mod sizeof_int3264 t"
  proof (cases t)
    case Win32
    with assms and_high_mask [of x 2 30] show ?thesis
      by (simp add: size_t_not_def size_t_def)
  next
    case Win64
    with assms and_high_mask [of x 3 61] show ?thesis
      by (simp add: size_t_not_def size_t_def)
  qed
  show "x AND size_t_not t (sizeof_int3264 t div sizeof_WCHAR - 1) = x - x mod (sizeof_int3264 t div sizeof_WCHAR)"
  proof (cases t)
    case Win32
    with assms and_high_mask [of x 1 31] show ?thesis
      by (simp add: size_t_not_def size_t_def sizeof_WCHAR_def)
  next
    case Win64
    with assms and_high_mask [of x 2 62] show ?thesis
      by (simp add: size_t_not_def size_t_def sizeof_WCHAR_def)
  qed
qed

lemma size_t_lt [simp]: "size_t t x < 2 ^ size_bits t"
  by (simp add: size_t_def)

lemma size_t_id: "x < 2 ^ size_bits t \<Longrightarrow> size_t t x = x"
  by (simp add: size_t_def)

lemma bytestr_count_eq:
  "bytestr_count t n =
     size_t t (size_t t n + sizeof_int3264 t) - size_t t (size_t t n + sizeof_int3264 t) mod sizeof_int3264 t"
  unfolding bytestr_count_def by (rule size_t_mask(1)) simp

lemma bstr_count_eq:
  "bstr_count t n =
     size_t t (size_t t n div 2 + sizeof_int3264 t div 2)
       - size_t t (size_t t n div 2 + sizeof_int3264 t div 2) mod (sizeof_int3264 t div 2)"
proof -
  have "bstr_count t n =
      size_t t (size_t t n div sizeof_WCHAR + sizeof_int3264 t div sizeof_WCHAR)
       - size_t t (size_t t n div sizeof_WCHAR + sizeof_int3264 t div sizeof_WCHAR) mod (sizeof_int3264 t div sizeof_WCHAR)"
    unfolding bstr_count_def by (rule size_t_mask(2)) simp
  then show ?thesis by (simp only: sizeof_WCHAR_def)
qed

lemma sizeof_int3264_pos [simp]: "0 < sizeof_int3264 t"
  by (cases t) simp_all

lemma sizeof_int3264_half: "sizeof_int3264 t div 2 * 2 = sizeof_int3264 t" "0 < sizeof_int3264 t div 2"
  by (cases t; simp)+

lemma bytestr_count_nowrap:
  assumes "n + sizeof_int3264 t < 2 ^ size_bits t"
  shows "bytestr_count t n = (n div sizeof_int3264 t + 1) * sizeof_int3264 t"
proof -
  have "n < 2 ^ size_bits t" using assms by simp
  then have "bytestr_count t n = n + sizeof_int3264 t - (n + sizeof_int3264 t) mod sizeof_int3264 t"
    using assms by (simp add: bytestr_count_eq size_t_id)
  also have "\<dots> = (n + sizeof_int3264 t) div sizeof_int3264 t * sizeof_int3264 t"
    by (rule minus_mod_eq_div_mult)
  finally show ?thesis by (simp add: div_add_self2)
qed

lemma bstr_count_nowrap:
  assumes "n < 2 ^ size_bits t"
  shows "bstr_count t n = (n div sizeof_int3264 t + 1) * (sizeof_int3264 t div 2)"
proof -
  define h where "h = sizeof_int3264 t div 2"
  have h: "0 < h" "2 * h = sizeof_int3264 t"
    using sizeof_int3264_half [of t] by (simp_all add: h_def)
  have "n div 2 + h < 2 ^ size_bits t"
    using assms unfolding h_def by (cases t) simp_all
  then have "bstr_count t n = n div 2 + h - (n div 2 + h) mod h"
    using assms by (simp add: bstr_count_eq size_t_id h_def)
  also have "\<dots> = (n div 2 + h) div h * h"
    by (rule minus_mod_eq_div_mult)
  also have "(n div 2 + h) div h = n div 2 div h + 1"
    using h(1) by (simp add: div_add_self2)
  also have "n div 2 div h = n div sizeof_int3264 t"
    using h(2) div_mult2_eq [of n 2 h] by simp
  finally show ?thesis by (simp add: h_def)
qed

lemma twice_bstr_count:
  assumes "n + sizeof_int3264 t < 2 ^ size_bits t"
  shows "bstr_count t n * sizeof_WCHAR = bytestr_count t n"
proof -
  have n: "n < 2 ^ size_bits t" using assms by simp
  have "bstr_count t n * sizeof_WCHAR = (n div sizeof_int3264 t + 1) * (sizeof_int3264 t div 2 * 2)"
    unfolding bstr_count_nowrap [OF n] sizeof_WCHAR_def by (simp only: mult.assoc)
  then show ?thesis
    unfolding bytestr_count_nowrap [OF assms] sizeof_int3264_half .
qed

lemma bytestr_count_wrap:
  assumes "n < 2 ^ size_bits t" and "\<not> n + sizeof_int3264 t < 2 ^ size_bits t"
  shows "bytestr_count t n = 0"
proof -
  have "n + sizeof_int3264 t < 2 ^ size_bits t + 2 ^ size_bits t"
    using assms(1) by (cases t) simp_all
  then have "(n + sizeof_int3264 t) mod 2 ^ size_bits t = n + sizeof_int3264 t - 2 ^ size_bits t"
    using assms(2) by (simp add: mod_if)
  then have "size_t t (size_t t n + sizeof_int3264 t) = n + sizeof_int3264 t - 2 ^ size_bits t"
    using assms(1) by (simp add: size_t_def)
  moreover have "n + sizeof_int3264 t - 2 ^ size_bits t < sizeof_int3264 t"
    using assms by linarith
  ultimately show ?thesis by (simp add: bytestr_count_eq)
qed

lemma bytestr_count_bounds:
  assumes "n + sizeof_int3264 t < 2 ^ size_bits t"
  shows "n < bytestr_count t n" and "bytestr_count t n \<le> n + sizeof_int3264 t"
    and "sizeof_int3264 t dvd bytestr_count t n"
proof -
  define w where "w = sizeof_int3264 t"
  have w: "0 < w" by (simp add: w_def)
  have b: "bytestr_count t n = (n div w + 1) * w"
    unfolding w_def by (rule bytestr_count_nowrap [OF assms])
  have "n = n div w * w + n mod w" by simp
  moreover have "n mod w < w" using w by simp
  ultimately have "n < n div w * w + w" by linarith
  then show "n < bytestr_count t n" by (simp add: b)
  have "n div w * w \<le> n" by simp
  then show "bytestr_count t n \<le> n + sizeof_int3264 t" by (simp add: b w_def)
  show "sizeof_int3264 t dvd bytestr_count t n" by (simp add: b w_def)
qed

lemma declarable_iff:
  assumes "n < 2 ^ size_bits t"
  shows "declarable t n \<longleftrightarrow> n + sizeof_int3264 t < 2 ^ size_bits t"
proof
  assume "declarable t n"
  then have "0 < bytestr_count t n" by (simp add: declarable_def)
  then show "n + sizeof_int3264 t < 2 ^ size_bits t"
    using bytestr_count_wrap [OF assms] by (cases "n + sizeof_int3264 t < 2 ^ size_bits t") simp_all
next
  assume nw: "n + sizeof_int3264 t < 2 ^ size_bits t"
  have "0 < bytestr_count t n" "bytestr_count t n < 2 ^ size_bits t"
    using bytestr_count_bounds(1,2) [OF nw] nw by linarith+
  then show "declarable t n"
    using twice_bstr_count [OF nw] by (simp add: declarable_def sizeof_WCHAR_def)
qed

lemma counts_size_t [simp]:
  "bstr_count t (size_t t n) = bstr_count t n"
  "bytestr_count t (size_t t n) = bytestr_count t n"
  "declarable t (size_t t n) = declarable t n"
  by (simp_all add: bstr_count_def bytestr_count_def declarable_def size_t_def)

lemma declarable_nowrap: "declarable t n \<Longrightarrow> size_t t n + sizeof_int3264 t < 2 ^ size_bits t"
  using declarable_iff [of "size_t t n" t] by simp

lemma declarable_twice: "declarable t n \<Longrightarrow> bstr_count t n * sizeof_WCHAR = bytestr_count t n"
  using twice_bstr_count [OF declarable_nowrap, of t n] by simp

section \<open>Facts about the memory\<close>

lemma UINT_of_bytes:
  fixes v :: "32 word"
  shows "ucast (ucast v :: byte) OR push_bit 8 (ucast (ucast (drop_bit 8 v) :: byte)) OR
     push_bit 16 (ucast (ucast (drop_bit 16 v) :: byte)) OR push_bit 24 (ucast (ucast (drop_bit 24 v) :: byte)) = v"
    (is "?lhs = v")
proof (rule bit_eqI)
  fix n
  assume "possible_bit TYPE(32 word) n"
  then have n: "n < 32" by simp
  consider "n < 8" | "8 \<le> n" "n < 16" | "16 \<le> n" "n < 24" | "24 \<le> n" "n < 32"
    using n by linarith
  then show "bit ?lhs n = bit v n"
    by cases (auto simp add: bit_simps)
qed

lemma store_bytes_at: "a \<le> x \<Longrightarrow> x < a + length bs \<Longrightarrow> store_bytes mem a bs x = bs ! (x - a)"
  by (simp add: store_bytes_def)

lemma store_bytes_other: "x < a \<or> a + length bs \<le> x \<Longrightarrow> store_bytes mem a bs x = mem x"
  by (auto simp add: store_bytes_def)

lemma load_store_UINT: "load_UINT (store_UINT mem a v) a = v"
  using UINT_of_bytes [of v] by (simp add: load_UINT_def store_UINT_def store_bytes_def UINT_bytes_def)

lemma store_UINT_other: "x < a \<or> a + 4 \<le> x \<Longrightarrow> store_UINT mem a v x = mem x"
  by (auto simp add: store_UINT_def store_bytes_def UINT_bytes_def)

lemma load_UINT_cong: "(\<And>i. i < 4 \<Longrightarrow> m1 (a + i) = m2 (a + i)) \<Longrightarrow> load_UINT m1 a = load_UINT m2 a"
proof -
  assume h: "\<And>i. i < 4 \<Longrightarrow> m1 (a + i) = m2 (a + i)"
  have "m1 a = m2 a" using h [of 0] by simp
  with h [of 1] h [of 2] h [of 3] show ?thesis by (simp add: load_UINT_def)
qed

lemma load_UINT_store_bytes_other:
  "a + 4 \<le> b \<or> b + length bs \<le> a \<Longrightarrow> load_UINT (store_bytes mem b bs) a = load_UINT mem a"
  by (rule load_UINT_cong) (auto simp add: store_bytes_def)

lemma load_UINT_zero:
  "b \<le> a \<Longrightarrow> a + 4 \<le> b + k \<Longrightarrow> load_UINT (store_bytes mem b (replicate k 0)) a = 0"
  by (simp add: load_UINT_def store_bytes_def)

section \<open>Facts about the layout\<close>

lemma align_up_dvd [simp]: "0 < a \<Longrightarrow> a dvd x \<Longrightarrow> align_up a x = x"
proof -
  assume a: "0 < a" and "a dvd x"
  then obtain k where k: "x = a * k" by blast
  have "(a * k + a - 1) div a = k"
  proof (rule div_nat_eqI)
    show "a * k \<le> a * k + a - 1" using a by linarith
    show "a * k + a - 1 < a * Suc k" using a by simp
  qed
  then show ?thesis by (simp add: align_up_def k)
qed

lemma align_up_two [simp]: "align_up (Suc (Suc 0)) 4 = 4" "align_up (Suc (Suc 0)) 8 = 8"
proof -
  have "align_up 2 4 = 4" "align_up 2 8 = 8" by (simp_all add: align_up_def)
  then show "align_up (Suc (Suc 0)) 4 = 4" "align_up (Suc (Suc 0)) 8 = 8"
    by (simp_all only: numeral_2_eq_2)
qed

lemmas ty_defs = ty_WCHAR_def ty_char_def ty_UINT_def ty_int32_def ty_int64_def sizeof_WCHAR_def sizeof_UINT_def

lemma alignof_container: "alignof (INTERNAL_BSTR_CONTAINER t n) = sizeof_int3264 t"
  by (cases t) (simp_all add: INTERNAL_BSTR_CONTAINER_def ty_defs)

lemma offsetof_length: "offsetof (INTERNAL_BSTR_CONTAINER t n) (length_path t) = Some (sizeof_int3264 t - sizeof_UINT)"
  by (cases t) (simp_all add: INTERNAL_BSTR_CONTAINER_def ty_defs)

lemma offsetof_bstr: "offsetof (INTERNAL_BSTR_CONTAINER t n) bstr_path = Some (sizeof_int3264 t)"
  by (cases t) (simp_all add: INTERNAL_BSTR_CONTAINER_def bstr_path_def ty_defs)

lemma offsetof_bytestr: "offsetof (INTERNAL_BSTR_CONTAINER t n) bytestr_path = Some (sizeof_int3264 t)"
  by (cases t) (simp_all add: INTERNAL_BSTR_CONTAINER_def bytestr_path_def ty_defs)

lemma typeof_bstr: "typeof_member (INTERNAL_BSTR_CONTAINER t n) bstr_path = Some (Array ty_WCHAR (bstr_count t n))"
  by (cases t) (simp_all add: INTERNAL_BSTR_CONTAINER_def bstr_path_def)

lemma typeof_bytestr: "typeof_member (INTERNAL_BSTR_CONTAINER t n) bytestr_path = Some (Array ty_char (bytestr_count t n))"
  by (cases t) (simp_all add: INTERNAL_BSTR_CONTAINER_def bytestr_path_def)

lemma sizeof_container:
  "sizeof (INTERNAL_BSTR_CONTAINER t n) =
     align_up (sizeof_int3264 t) (sizeof_int3264 t + align_up (Suc (Suc 0)) (max (bytestr_count t n) (bstr_count t n * 2)))"
  by (cases t) (simp_all add: INTERNAL_BSTR_CONTAINER_def ty_defs)

section \<open>Facts about the accessors\<close>

lemma GET_SET_BYTE_LEN: "GET_BSTR_BYTE_LEN (SET_BSTR_BYTE_LEN mem h n) h = word_of_nat n"
  by (simp add: GET_BSTR_BYTE_LEN_def SET_BSTR_BYTE_LEN_def load_store_UINT)

lemma GET_BYTE_SET_LEN: "GET_BSTR_BYTE_LEN (SET_BSTR_LEN mem h n) h = word_of_nat (n * sizeof_WCHAR)"
  by (simp add: GET_BSTR_BYTE_LEN_def SET_BSTR_LEN_def load_store_UINT)

lemma GET_LEN_BYTE_LEN:
  "GET_BSTR_LEN mem h = word_of_nat (unat (GET_BSTR_BYTE_LEN mem h) div sizeof_WCHAR)"
  by (simp add: GET_BSTR_BYTE_LEN_def GET_BSTR_LEN_def)

lemma unat_GET_LEN: "unat (GET_BSTR_LEN mem h) = unat (GET_BSTR_BYTE_LEN mem h) div sizeof_WCHAR"
proof -
  have "unat (GET_BSTR_BYTE_LEN mem h) < 2 ^ 32"
    using unsigned_less [of "GET_BSTR_BYTE_LEN mem h", where 'a = nat] by simp
  then have "unat (GET_BSTR_BYTE_LEN mem h) div sizeof_WCHAR < 2 ^ 32"
    by (simp add: sizeof_WCHAR_def)
  then show ?thesis
    by (simp add: GET_LEN_BYTE_LEN unat_of_nat)
qed

lemma SET_LEN_BYTE_LEN: "SET_BSTR_LEN mem h n = SET_BSTR_BYTE_LEN mem h (n * sizeof_WCHAR)"
  by (simp add: SET_BSTR_LEN_def SET_BSTR_BYTE_LEN_def)

lemma unat_UINT_of_nat: "unat (word_of_nat n :: 32 word) = n mod 2 ^ 32"
  by (simp add: unat_of_nat)

lemma unat_GET_SET_BYTE_LEN:
  "unat (GET_BSTR_BYTE_LEN (SET_BSTR_BYTE_LEN mem h n) h) = n mod 2 ^ 32"
  unfolding GET_SET_BYTE_LEN by (rule unat_UINT_of_nat)

lemma unat_GET_BYTE_SET_LEN:
  "unat (GET_BSTR_BYTE_LEN (SET_BSTR_LEN mem h n) h) = (n * sizeof_WCHAR) mod 2 ^ 32"
  unfolding GET_BYTE_SET_LEN by (rule unat_UINT_of_nat)

lemma unat_GET_LEN_SET_BYTE_LEN:
  "unat (GET_BSTR_LEN (SET_BSTR_BYTE_LEN mem h n) h) = (n mod 2 ^ 32) div sizeof_WCHAR"
  unfolding unat_GET_LEN unat_GET_SET_BYTE_LEN ..

lemma unat_GET_LEN_SET_LEN:
  "unat (GET_BSTR_LEN (SET_BSTR_LEN mem h n) h) = ((n * sizeof_WCHAR) mod 2 ^ 32) div sizeof_WCHAR"
  unfolding unat_GET_LEN unat_GET_BYTE_SET_LEN ..

lemma store_UINT_frame: "sizeof_UINT \<le> h \<Longrightarrow> a < h - sizeof_UINT \<or> h \<le> a \<Longrightarrow> store_UINT mem (h - sizeof_UINT) v a = mem a"
  by (rule store_UINT_other) (auto simp add: sizeof_UINT_def)

section \<open>Facts about the constructors\<close>

lemma align_up_ge: "0 < a \<Longrightarrow> x \<le> align_up a x"
proof -
  assume a: "0 < a"
  have "(x + a - 1) div a * a = (x + a - 1) - (x + a - 1) mod a"
    by (simp add: minus_mod_eq_div_mult)
  moreover have "(x + a - 1) mod a < a" using a by simp
  ultimately show ?thesis unfolding align_up_def by linarith
qed

lemma sizeof_container_ge:
  "sizeof_int3264 t + bytestr_count t n \<le> sizeof (INTERNAL_BSTR_CONTAINER t n)"
proof -
  have "bytestr_count t n \<le> align_up (Suc (Suc 0)) (max (bytestr_count t n) (bstr_count t n * 2))"
    using align_up_ge [of "Suc (Suc 0)" "max (bytestr_count t n) (bstr_count t n * 2)"] by simp
  then have "sizeof_int3264 t + bytestr_count t n
      \<le> sizeof_int3264 t + align_up (Suc (Suc 0)) (max (bytestr_count t n) (bstr_count t n * 2))"
    by simp
  also have "\<dots> \<le> sizeof (INTERNAL_BSTR_CONTAINER t n)"
    unfolding sizeof_container by (rule align_up_ge) simp
  finally show ?thesis .
qed

lemma sizeof_UINT_le: "sizeof_UINT \<le> sizeof_int3264 t"
  by (cases t) (simp_all add: sizeof_UINT_def)

lemma address_bstr [simp]:
  "member_address (INTERNAL_BSTR_CONTAINER t n) bstr_path base = base + sizeof_int3264 t"
  by (simp add: member_address_def offsetof_bstr)

lemma address_bytestr [simp]:
  "member_address (INTERNAL_BSTR_CONTAINER t n) bytestr_path base = base + sizeof_int3264 t"
  by (simp add: member_address_def offsetof_bytestr)

lemma address_length [simp]:
  "member_address (INTERNAL_BSTR_CONTAINER t n) (length_path t) base
     = base + sizeof_int3264 t - sizeof_UINT"
  using sizeof_UINT_le [of t] by (simp add: member_address_def offsetof_length)

text \<open>What a designated initializer of the container leaves in memory.\<close>

lemma initialized_length:
  assumes m: "m = store_bytes (store_UINT (zero_object (INTERNAL_BSTR_CONTAINER t n) base mem)
                 (base + sizeof_int3264 t - sizeof_UINT) v) (base + sizeof_int3264 t) bs"
  shows "GET_BSTR_BYTE_LEN m (base + sizeof_int3264 t) = v"
proof -
  have "base + sizeof_int3264 t - sizeof_UINT + 4 \<le> base + sizeof_int3264 t"
    using sizeof_UINT_le [of t] by (simp add: sizeof_UINT_def)
  then show ?thesis
    unfolding m GET_BSTR_BYTE_LEN_def
    by (simp add: load_UINT_store_bytes_other load_store_UINT)
qed

lemma initialized_tail:
  assumes m: "m = store_bytes (store_UINT (zero_object (INTERNAL_BSTR_CONTAINER t n) base mem)
                 (base + sizeof_int3264 t - sizeof_UINT) v) (base + sizeof_int3264 t) bs"
    and i: "length bs \<le> i" "i < bytestr_count t n"
  shows "m (base + sizeof_int3264 t + i) = 0"
proof -
  have 1: "m (base + sizeof_int3264 t + i)
      = store_UINT (zero_object (INTERNAL_BSTR_CONTAINER t n) base mem)
                 (base + sizeof_int3264 t - sizeof_UINT) v (base + sizeof_int3264 t + i)"
    unfolding m using i(1) by (simp add: store_bytes_other)
  have "base + sizeof_int3264 t - sizeof_UINT + 4 \<le> base + sizeof_int3264 t + i"
    using sizeof_UINT_le [of t] by (simp add: sizeof_UINT_def)
  then have 2: "store_UINT (zero_object (INTERNAL_BSTR_CONTAINER t n) base mem)
                 (base + sizeof_int3264 t - sizeof_UINT) v (base + sizeof_int3264 t + i)
      = zero_object (INTERNAL_BSTR_CONTAINER t n) base mem (base + sizeof_int3264 t + i)"
    by (simp add: store_UINT_other)
  have "base + sizeof_int3264 t + i < base + sizeof (INTERNAL_BSTR_CONTAINER t n)"
    using sizeof_container_ge [of t n] i(2) by linarith
  then have 3: "zero_object (INTERNAL_BSTR_CONTAINER t n) base mem (base + sizeof_int3264 t + i) = 0"
    by (simp add: zero_object_def store_bytes_def)
  show ?thesis by (simp only: 1 2 3)
qed

lemma zero_object_length:
  "GET_BSTR_BYTE_LEN (zero_object (INTERNAL_BSTR_CONTAINER t n) base mem) (base + sizeof_int3264 t) = 0"
proof -
  have "base \<le> base + sizeof_int3264 t - sizeof_UINT" using sizeof_UINT_le [of t] by simp
  moreover have "base + sizeof_int3264 t - sizeof_UINT + 4 \<le> base + sizeof (INTERNAL_BSTR_CONTAINER t n)"
    using sizeof_container_ge [of t n] sizeof_UINT_le [of t] by (simp add: sizeof_UINT_def)
  ultimately show ?thesis
    unfolding GET_BSTR_BYTE_LEN_def zero_object_def by (rule load_UINT_zero)
qed

lemma zero_object_buffer:
  assumes "i < bytestr_count t n"
  shows "zero_object (INTERNAL_BSTR_CONTAINER t n) base mem (base + sizeof_int3264 t + i) = 0"
proof -
  have "base + sizeof_int3264 t + i < base + sizeof (INTERNAL_BSTR_CONTAINER t n)"
    using sizeof_container_ge [of t n] assms by linarith
  then show ?thesis by (simp add: zero_object_def store_bytes_def)
qed

lemma INITIALIZED_BSTR_CONTAINER_eq:
  "INITIALIZED_BSTR_CONTAINER t base bufcount init mem =
     store_bytes (store_UINT (zero_object (INTERNAL_BSTR_CONTAINER t (bufcount * sizeof_WCHAR)) base mem)
        (base + sizeof_int3264 t - sizeof_UINT) ((word_of_nat bufcount - 1) * word_of_nat sizeof_WCHAR))
        (base + sizeof_int3264 t) (concat (map WCHAR_bytes init))"
  by (simp add: INITIALIZED_BSTR_CONTAINER_def BSTR_CONTAINER_def Let_def)

lemma INITIALIZED_BSTR_BYTE_CONTAINER_eq:
  "INITIALIZED_BSTR_BYTE_CONTAINER t base bufsize init mem =
     store_bytes (store_UINT (zero_object (INTERNAL_BSTR_CONTAINER t bufsize) base mem)
        (base + sizeof_int3264 t - sizeof_UINT) (word_of_nat bufsize - 1))
        (base + sizeof_int3264 t) init"
  by (simp add: INITIALIZED_BSTR_BYTE_CONTAINER_def BSTR_BYTE_CONTAINER_def Let_def)

lemma handle_BSTR_CONTAINER [simp]:
  "member_address (BSTR_CONTAINER t bufcount) bstr_path base = base + sizeof_int3264 t"
  "member_address (BSTR_BYTE_CONTAINER t bufsize) bstr_path base = base + sizeof_int3264 t"
  by (simp_all add: BSTR_CONTAINER_def BSTR_BYTE_CONTAINER_def)

lemma INITIALIZED_BSTR_CONTAINER_length:
  "GET_BSTR_BYTE_LEN (INITIALIZED_BSTR_CONTAINER t base bufcount init mem) (base + sizeof_int3264 t)
     = (word_of_nat bufcount - 1) * word_of_nat sizeof_WCHAR"
  by (rule initialized_length) (rule INITIALIZED_BSTR_CONTAINER_eq)

lemma INITIALIZED_BSTR_BYTE_CONTAINER_length:
  "GET_BSTR_BYTE_LEN (INITIALIZED_BSTR_BYTE_CONTAINER t base bufsize init mem) (base + sizeof_int3264 t)
     = word_of_nat bufsize - 1"
  by (rule initialized_length) (rule INITIALIZED_BSTR_BYTE_CONTAINER_eq)

lemma unat_UINT_pred: "1 \<le> n \<Longrightarrow> n \<le> 2 ^ 32 \<Longrightarrow> unat (word_of_nat n - 1 :: 32 word) = n - 1"
proof -
  assume n: "1 \<le> n" "n \<le> 2 ^ 32"
  then have "word_of_nat n - 1 = (word_of_nat (n - 1) :: 32 word)" by simp
  moreover have "n - 1 < 2 ^ 32" using n by linarith
  ultimately show ?thesis by (simp add: unat_UINT_of_nat)
qed

lemma unat_UINT_pred_twice:
  assumes "1 \<le> n" "(n - 1) * sizeof_WCHAR < 2 ^ 32"
  shows "unat ((word_of_nat n - 1) * word_of_nat sizeof_WCHAR :: 32 word) = (n - 1) * sizeof_WCHAR"
proof -
  have "(word_of_nat n - 1) * word_of_nat sizeof_WCHAR = (word_of_nat ((n - 1) * sizeof_WCHAR) :: 32 word)"
    using assms(1) by simp
  then show ?thesis using assms(2) by (simp only: unat_UINT_of_nat) simp
qed

lemma length_WCHAR_bytes: "length (concat (map WCHAR_bytes init)) = length init * sizeof_WCHAR"
  by (induction init) (simp_all add: WCHAR_bytes_def sizeof_WCHAR_def)

lemma INITIALIZED_BSTR_CONTAINER_tail:
  assumes "length init * sizeof_WCHAR \<le> i" and "i < bytestr_count t (bufcount * sizeof_WCHAR)"
  shows "INITIALIZED_BSTR_CONTAINER t base bufcount init mem (base + sizeof_int3264 t + i) = 0"
  using assms
  by (intro initialized_tail [OF INITIALIZED_BSTR_CONTAINER_eq]) (simp_all add: length_WCHAR_bytes)

lemma INITIALIZED_BSTR_BYTE_CONTAINER_tail:
  assumes "length init \<le> i" and "i < bytestr_count t bufsize"
  shows "INITIALIZED_BSTR_BYTE_CONTAINER t base bufsize init mem (base + sizeof_int3264 t + i) = 0"
  using assms
  by (intro initialized_tail [OF INITIALIZED_BSTR_BYTE_CONTAINER_eq]) simp_all

lemma MAKE_BSTR_startup_eq:
  "MAKE_BSTR_startup t base bufcount mem
     = zero_object (INTERNAL_BSTR_CONTAINER t (bufcount * sizeof_WCHAR)) base mem"
  "MAKE_BSTR_BYTE_startup t base bufsize mem
     = zero_object (INTERNAL_BSTR_CONTAINER t bufsize) base mem"
  by (simp_all add: MAKE_BSTR_startup_def MAKE_BSTR_BYTE_startup_def BSTR_CONTAINER_def
      BSTR_BYTE_CONTAINER_def)

lemma typeof_length: "typeof_member (INTERNAL_BSTR_CONTAINER t n) (length_path t) = Some ty_UINT"
  by (cases t) (simp_all add: INTERNAL_BSTR_CONTAINER_def)

lemma sizeof_container_declarable:
  assumes "declarable t n"
  shows "sizeof (INTERNAL_BSTR_CONTAINER t n) = sizeof_int3264 t + bytestr_count t n"
proof -
  have nw: "size_t t n + sizeof_int3264 t < 2 ^ size_bits t"
    by (rule declarable_nowrap [OF assms])
  have w: "sizeof_int3264 t dvd bytestr_count t n"
    using bytestr_count_bounds(3) [OF nw] by simp
  have "(2 :: nat) dvd sizeof_int3264 t" by (cases t) simp_all
  then have "(2 :: nat) dvd bytestr_count t n"
    using w by (rule dvd_trans)
  then have two: "Suc (Suc 0) dvd bytestr_count t n"
    by (simp only: numeral_2_eq_2)
  have "bstr_count t n * 2 = bytestr_count t n"
    using declarable_twice [OF assms] by (simp add: sizeof_WCHAR_def)
  then show ?thesis
    unfolding sizeof_container using two w by simp
qed

section \<open>The claims\<close>

text \<open>
  C1 (amended). Round trip of the length accessors. For every handle and every length
  \<open>len\<close> with \<open>len * sizeof(WCHAR) < 2 ^ 32\<close>, \<^verbatim>\<open>SET_BSTR_LEN(handle, len)\<close> followed by
  \<^verbatim>\<open>GET_BSTR_LEN(handle)\<close> returns \<open>len\<close>; for every \<open>len < 2 ^ 32\<close>,
  \<^verbatim>\<open>SET_BSTR_BYTE_LEN(handle, len)\<close> followed by \<^verbatim>\<open>GET_BSTR_BYTE_LEN(handle)\<close> returns
  \<open>len\<close>. For the handle of a declarable container whose buffer is smaller than
  \<open>2 ^ 32\<close> bytes, every length within the allocated buffer capacity satisfies these
  bounds, and on the 32-bit target every declarable container has such a buffer.
\<close>

theorem C1_length_round_trip:
  "(len * sizeof_WCHAR < 2 ^ 32 \<longrightarrow>
      unat (GET_BSTR_LEN (SET_BSTR_LEN mem h len) h) = len) \<and>
   (len < 2 ^ 32 \<longrightarrow>
      unat (GET_BSTR_BYTE_LEN (SET_BSTR_BYTE_LEN mem h len) h) = len) \<and>
   (declarable t bytecount \<and> bytestr_count t bytecount < 2 ^ 32 \<and>
    h = member_address (INTERNAL_BSTR_CONTAINER t bytecount) bstr_path base \<and>
    len * sizeof_WCHAR \<le> bytestr_count t bytecount \<longrightarrow>
      unat (GET_BSTR_LEN (SET_BSTR_LEN mem h len) h) = len) \<and>
   (declarable t bytecount \<and> bytestr_count t bytecount < 2 ^ 32 \<and>
    h = member_address (INTERNAL_BSTR_CONTAINER t bytecount) bstr_path base \<and>
    len \<le> bytestr_count t bytecount \<longrightarrow>
      unat (GET_BSTR_BYTE_LEN (SET_BSTR_BYTE_LEN mem h len) h) = len) \<and>
   (declarable Win32 bytecount \<longrightarrow> bytestr_count Win32 bytecount < 2 ^ 32)"
proof -
  have a: "unat (GET_BSTR_LEN (SET_BSTR_LEN mem h len) h) = len" if "len * sizeof_WCHAR < 2 ^ 32"
    using that by (simp add: unat_GET_LEN_SET_LEN sizeof_WCHAR_def)
  have b: "unat (GET_BSTR_BYTE_LEN (SET_BSTR_BYTE_LEN mem h len) h) = len" if "len < 2 ^ 32"
    using that by (simp add: unat_GET_SET_BYTE_LEN)
  have c: "bytestr_count Win32 bytecount < 2 ^ 32" if "declarable Win32 bytecount"
    using that by (simp add: declarable_def)
  have a': "unat (GET_BSTR_LEN (SET_BSTR_LEN mem h len) h) = len"
    if "bytestr_count t bytecount < 2 ^ 32" "len * sizeof_WCHAR \<le> bytestr_count t bytecount"
    using that by (intro a) linarith
  have b': "unat (GET_BSTR_BYTE_LEN (SET_BSTR_BYTE_LEN mem h len) h) = len"
    if "bytestr_count t bytecount < 2 ^ 32" "len \<le> bytestr_count t bytecount"
    using that by (intro b) linarith
  show ?thesis using a b c a' b' by blast
qed

text \<open>
  The instance for a container of 22 bytes (11 wide characters) at address 65536 on
  the 64-bit target, with the lengths 9 (wide) and 18 (bytes).
\<close>

theorem C1_witness:
  "declarable Win64 22 \<and> bytestr_count Win64 22 < 2 ^ 32 \<and>
   member_address (INTERNAL_BSTR_CONTAINER Win64 22) bstr_path 65536 = 65544 \<and>
   9 * sizeof_WCHAR \<le> bytestr_count Win64 22 \<and>
   unat (GET_BSTR_LEN (SET_BSTR_LEN zero_memory 65544 9) 65544) = 9 \<and>
   unat (GET_BSTR_BYTE_LEN (SET_BSTR_BYTE_LEN zero_memory 65544 18) 65544) = 18 \<and>
   declarable Win32 22 \<and> bytestr_count Win32 22 < 2 ^ 32"
proof -
  have d: "declarable Win64 22" "declarable Win32 22"
    by (simp_all add: declarable_def bstr_count_def bytestr_count_def size_t_def size_t_not_def sizeof_WCHAR_def)
  have c: "bytestr_count Win64 22 = 24"
    by (simp add: bytestr_count_def size_t_def size_t_not_def)
  have h: "member_address (INTERNAL_BSTR_CONTAINER Win64 22) bstr_path 65536 = 65544"
    by simp
  show ?thesis
    using d c h C1_length_round_trip [of 9 zero_memory 65544 Win64 22 65536]
      C1_length_round_trip [of 18 zero_memory 65544 Win64 22 65536]
      C1_length_round_trip [of 9 zero_memory 65544 Win32 22 65536]
    by (simp add: sizeof_WCHAR_def)
qed

text \<open>
  C1 as stated fails on the 64-bit target for a buffer beyond 4 GiB. The container
  declared for \<open>2 ^ 31 + 1\<close> wide characters has room for a string of length \<open>2 ^ 31\<close>
  and its terminator, but \<^verbatim>\<open>SET_BSTR_LEN(handle, 0x80000000)\<close> stores
  \<^verbatim>\<open>(UINT)0x100000000\<close>, which is 0, and \<^verbatim>\<open>GET_BSTR_LEN\<close> returns 0. Its buffer has room
  for \<open>2 ^ 32\<close> bytes and a terminator, but \<^verbatim>\<open>SET_BSTR_BYTE_LEN(handle, 0x100000000)\<close>
  stores 0 as well.
\<close>

theorem C1_counterexample:
  "declarable Win64 4294967298 \<and>
   2147483648 + 1 \<le> bstr_count Win64 4294967298 \<and>
   unat (GET_BSTR_LEN
          (SET_BSTR_LEN zero_memory
             (member_address (INTERNAL_BSTR_CONTAINER Win64 4294967298) bstr_path 65536)
             2147483648)
          (member_address (INTERNAL_BSTR_CONTAINER Win64 4294967298) bstr_path 65536)) = 0 \<and>
   4294967296 + 1 \<le> bytestr_count Win64 4294967298 \<and>
   unat (GET_BSTR_BYTE_LEN
          (SET_BSTR_BYTE_LEN zero_memory
             (member_address (INTERNAL_BSTR_CONTAINER Win64 4294967298) bstr_path 65536)
             4294967296)
          (member_address (INTERNAL_BSTR_CONTAINER Win64 4294967298) bstr_path 65536)) = 0"
proof -
  have b: "bstr_count Win64 4294967298 = 2147483652" "bytestr_count Win64 4294967298 = 4294967304"
    by (simp_all add: bstr_count_def bytestr_count_def size_t_def size_t_not_def sizeof_WCHAR_def)
  then have d: "declarable Win64 4294967298"
    by (simp add: declarable_def sizeof_WCHAR_def)
  show ?thesis using b d
    by (simp add: unat_GET_LEN_SET_LEN unat_GET_SET_BYTE_LEN sizeof_WCHAR_def)
qed

text \<open>
  C2 (amended). Value-initialising a wide container with a declared capacity
  \<open>bufcount\<close> from 1 to \<open>2 ^ 31\<close> (so that \<open>(bufcount - 1) * sizeof(WCHAR)\<close> is a 32-bit
  value) stores the length prefix \<open>(bufcount - 1) * sizeof(WCHAR)\<close>, so \<^verbatim>\<open>GET_BSTR_LEN\<close>
  on the handle returns \<open>bufcount - 1\<close>; after \<^verbatim>\<open>SET_BSTR_LEN(handle, len)\<close> with a
  shorter length it returns \<open>len\<close>.
\<close>

theorem C2_initialized_wide_length:
  assumes "1 \<le> bufcount" and "(bufcount - 1) * sizeof_WCHAR < 2 ^ 32"
  shows "unat (GET_BSTR_BYTE_LEN (INITIALIZED_BSTR_CONTAINER t base bufcount init mem)
                 (member_address (BSTR_CONTAINER t bufcount) bstr_path base))
           = (bufcount - 1) * sizeof_WCHAR \<and>
         unat (GET_BSTR_LEN (INITIALIZED_BSTR_CONTAINER t base bufcount init mem)
                 (member_address (BSTR_CONTAINER t bufcount) bstr_path base))
           = bufcount - 1 \<and>
         (len < bufcount \<longrightarrow>
            unat (GET_BSTR_LEN
                    (SET_BSTR_LEN (INITIALIZED_BSTR_CONTAINER t base bufcount init mem)
                       (member_address (BSTR_CONTAINER t bufcount) bstr_path base) len)
                    (member_address (BSTR_CONTAINER t bufcount) bstr_path base))
              = len)"
proof -
  let ?m = "INITIALIZED_BSTR_CONTAINER t base bufcount init mem"
  let ?h = "base + sizeof_int3264 t"
  have 1: "unat (GET_BSTR_BYTE_LEN ?m ?h) = (bufcount - 1) * sizeof_WCHAR"
    unfolding INITIALIZED_BSTR_CONTAINER_length by (rule unat_UINT_pred_twice [OF assms])
  have 2: "unat (GET_BSTR_LEN ?m ?h) = bufcount - 1"
    unfolding unat_GET_LEN 1 by (simp add: sizeof_WCHAR_def)
  have 3: "unat (GET_BSTR_LEN (SET_BSTR_LEN ?m ?h len) ?h) = len" if "len < bufcount"
  proof -
    have "len \<le> bufcount - 1" using that by linarith
    then have "len * sizeof_WCHAR \<le> (bufcount - 1) * sizeof_WCHAR" by (rule mult_le_mono1)
    then have "len * sizeof_WCHAR < 2 ^ 32" using assms(2) by linarith
    then show ?thesis by (simp add: unat_GET_LEN_SET_LEN sizeof_WCHAR_def)
  qed
  show ?thesis using 1 2 3 by simp
qed

text \<open>
  The instance of the specification: capacity 11 and content \<^verbatim>\<open>L"1234567890"\<close> give the
  wide length 10, and 9 after \<^verbatim>\<open>SET_BSTR_LEN(handle, 9)\<close>.
\<close>

theorem C2_witness:
  "(1 :: nat) \<le> 11 \<and> (11 - 1) * sizeof_WCHAR < 2 ^ 32 \<and>
   unat (GET_BSTR_LEN
          (INITIALIZED_BSTR_CONTAINER Win64 65536 11 (wide_string_literal ''1234567890'') zero_memory)
          (member_address (BSTR_CONTAINER Win64 11) bstr_path 65536)) = 10 \<and>
   unat (GET_BSTR_LEN
          (SET_BSTR_LEN
             (INITIALIZED_BSTR_CONTAINER Win64 65536 11 (wide_string_literal ''1234567890'') zero_memory)
             (member_address (BSTR_CONTAINER Win64 11) bstr_path 65536) 9)
          (member_address (BSTR_CONTAINER Win64 11) bstr_path 65536)) = 9"
proof -
  have a: "(1 :: nat) \<le> 11" by simp
  have b: "(11 - 1) * sizeof_WCHAR < 2 ^ 32" by (simp add: sizeof_WCHAR_def)
  show ?thesis
    using a b C2_initialized_wide_length [OF a b, of Win64 65536 "wide_string_literal ''1234567890''" zero_memory 9]
    by simp
qed

text \<open>
  C2 as stated fails outside these bounds. On the 64-bit target the declared capacity
  \<open>2 ^ 31 + 1\<close> stores \<^verbatim>\<open>(UINT)0x100000000\<close>, which is 0, and \<^verbatim>\<open>GET_BSTR_LEN\<close> returns 0,
  not \<open>2 ^ 31\<close>. The declared capacity 0 stores \<^verbatim>\<open>0xFFFFFFFE\<close> and \<^verbatim>\<open>GET_BSTR_LEN\<close>
  returns \<^verbatim>\<open>0x7FFFFFFF\<close>.
\<close>

theorem C2_counterexample:
  "declarable Win64 (2147483649 * sizeof_WCHAR) \<and>
   unat (GET_BSTR_LEN
          (INITIALIZED_BSTR_CONTAINER Win64 65536 2147483649 (wide_string_literal []) zero_memory)
          (member_address (BSTR_CONTAINER Win64 2147483649) bstr_path 65536)) = 0 \<and>
   declarable Win32 (0 * sizeof_WCHAR) \<and>
   unat (GET_BSTR_LEN
          (INITIALIZED_BSTR_CONTAINER Win32 65536 0 (wide_string_literal []) zero_memory)
          (member_address (BSTR_CONTAINER Win32 0) bstr_path 65536)) = 2147483647"
proof -
  have d: "declarable Win64 (2147483649 * sizeof_WCHAR)" "declarable Win32 (0 * sizeof_WCHAR)"
    by (simp_all add: declarable_iff sizeof_WCHAR_def)
  show ?thesis
    using d
      INITIALIZED_BSTR_CONTAINER_length [of Win64 65536 2147483649 "wide_string_literal []" zero_memory]
      INITIALIZED_BSTR_CONTAINER_length [of Win32 65536 0 "wide_string_literal []" zero_memory]
    by (simp add: unat_GET_LEN sizeof_WCHAR_def)
qed

text \<open>
  C3 (amended). Value-initialising a byte container with a declared capacity \<open>bufsize\<close>
  from 1 to \<open>2 ^ 32\<close> (so that \<open>bufsize - 1\<close> is a 32-bit value) stores the length prefix
  \<open>bufsize - 1\<close>, so \<^verbatim>\<open>GET_BSTR_BYTE_LEN\<close> on the handle returns \<open>bufsize - 1\<close>. After
  \<^verbatim>\<open>SET_BSTR_BYTE_LEN(handle, len)\<close>, whatever was written to the buffer in between, it
  returns \<open>len\<close>.
\<close>

theorem C3_initialized_byte_length:
  assumes "1 \<le> bufsize" and "bufsize \<le> 2 ^ 32"
  shows "unat (GET_BSTR_BYTE_LEN (INITIALIZED_BSTR_BYTE_CONTAINER t base bufsize init mem)
                 (member_address (BSTR_BYTE_CONTAINER t bufsize) bstr_path base))
           = bufsize - 1 \<and>
         (len < 2 ^ 32 \<longrightarrow>
            unat (GET_BSTR_BYTE_LEN
                    (SET_BSTR_BYTE_LEN mem'
                       (member_address (BSTR_BYTE_CONTAINER t bufsize) bstr_path base) len)
                    (member_address (BSTR_BYTE_CONTAINER t bufsize) bstr_path base))
              = len)"
  using assms
  by (simp add: INITIALIZED_BSTR_BYTE_CONTAINER_length unat_UINT_pred unat_GET_SET_BYTE_LEN)

text \<open>
  The instance of the specification: capacity 11 and content \<^verbatim>\<open>"1234567890"\<close> give the
  byte length 10; after the content is cut at 5 bytes and \<^verbatim>\<open>SET_BSTR_BYTE_LEN(handle, 5)\<close>
  it is 5.
\<close>

theorem C3_witness:
  "(1 :: nat) \<le> 11 \<and> (11 :: nat) \<le> 2 ^ 32 \<and>
   unat (GET_BSTR_BYTE_LEN
          (INITIALIZED_BSTR_BYTE_CONTAINER Win64 65536 11 (byte_string_literal ''1234567890'') zero_memory)
          (member_address (BSTR_BYTE_CONTAINER Win64 11) bstr_path 65536)) = 10 \<and>
   unat (GET_BSTR_BYTE_LEN
          (SET_BSTR_BYTE_LEN
             (store_bytes
                (INITIALIZED_BSTR_BYTE_CONTAINER Win64 65536 11 (byte_string_literal ''1234567890'') zero_memory)
                (member_address (BSTR_BYTE_CONTAINER Win64 11) bstr_path 65536 + 5) [0])
             (member_address (BSTR_BYTE_CONTAINER Win64 11) bstr_path 65536) 5)
          (member_address (BSTR_BYTE_CONTAINER Win64 11) bstr_path 65536)) = 5"
proof -
  have a: "(1 :: nat) \<le> 11" by simp
  have b: "(11 :: nat) \<le> 2 ^ 32" by simp
  show ?thesis
    using a b
      C3_initialized_byte_length [OF a b, of Win64 65536 "byte_string_literal ''1234567890''"
        zero_memory 5
        "store_bytes
           (INITIALIZED_BSTR_BYTE_CONTAINER Win64 65536 11 (byte_string_literal ''1234567890'') zero_memory)
           (member_address (BSTR_BYTE_CONTAINER Win64 11) bstr_path 65536 + 5) [0]"]
    by simp
qed

text \<open>
  C3 as stated fails outside these bounds. On the 64-bit target the declared capacity
  \<open>2 ^ 32 + 1\<close> stores \<^verbatim>\<open>(UINT)0x100000000\<close>, which is 0, and \<^verbatim>\<open>GET_BSTR_BYTE_LEN\<close> returns
  0, not \<open>2 ^ 32\<close>. The declared capacity 0 stores \<^verbatim>\<open>0xFFFFFFFF\<close> and
  \<^verbatim>\<open>GET_BSTR_BYTE_LEN\<close> returns 4294967295.
\<close>

theorem C3_counterexample:
  "declarable Win64 4294967297 \<and>
   unat (GET_BSTR_BYTE_LEN
          (INITIALIZED_BSTR_BYTE_CONTAINER Win64 65536 4294967297 (byte_string_literal []) zero_memory)
          (member_address (BSTR_BYTE_CONTAINER Win64 4294967297) bstr_path 65536)) = 0 \<and>
   declarable Win32 0 \<and>
   unat (GET_BSTR_BYTE_LEN
          (INITIALIZED_BSTR_BYTE_CONTAINER Win32 65536 0 (byte_string_literal []) zero_memory)
          (member_address (BSTR_BYTE_CONTAINER Win32 0) bstr_path 65536)) = 4294967295"
proof -
  have d: "declarable Win64 4294967297" "declarable Win32 0"
    by (simp_all add: declarable_iff)
  show ?thesis
    using d
      INITIALIZED_BSTR_BYTE_CONTAINER_length [of Win64 65536 4294967297 "byte_string_literal []" zero_memory]
      INITIALIZED_BSTR_BYTE_CONTAINER_length [of Win32 65536 0 "byte_string_literal []" zero_memory]
    by (simp add: unsigned_minus_1_eq_mask mask_eq_exp_minus_1)
qed

text \<open>
  C4. For every requested byte count for which the container can be declared, the two
  members of the buffer union, the wide-character array \<^verbatim>\<open>bstr\<close> and the byte array
  \<^verbatim>\<open>bytestr\<close>, both occupy exactly \<open>round_up(bytecount, wordSize)\<close> bytes, with
  \<open>round_up(n, w) = (n + w) & ~(w - 1)\<close> and \<open>wordSize = sizeof(__int3264)\<close>. The two
  arrays have the same size in bytes also for an odd byte count, although the bound of
  the wide array divides by \<^verbatim>\<open>sizeof(WCHAR)\<close> first. The hypothesis is that the
  declaration is well formed: the array bounds are positive and the array sizes are
  values of \<^verbatim>\<open>size_t\<close>.
\<close>

theorem C4_union_members_same_size:
  assumes "declarable t bytecount"
  shows "map_option sizeof (typeof_member (INTERNAL_BSTR_CONTAINER t bytecount) bstr_path)
           = Some (round_up t bytecount (sizeof_int3264 t)) \<and>
         map_option sizeof (typeof_member (INTERNAL_BSTR_CONTAINER t bytecount) bytestr_path)
           = Some (round_up t bytecount (sizeof_int3264 t))"
proof -
  have r: "round_up t bytecount (sizeof_int3264 t) = bytestr_count t bytecount"
    by (simp add: round_up_def bytestr_count_def)
  have "sizeof (Array ty_WCHAR (bstr_count t bytecount)) = bytestr_count t bytecount"
    using declarable_twice [OF assms] by (simp add: ty_WCHAR_def)
  moreover have "sizeof (Array ty_char (bytestr_count t bytecount)) = bytestr_count t bytecount"
    by (simp add: ty_char_def)
  ultimately show ?thesis
    by (simp add: typeof_bstr typeof_bytestr r)
qed

text \<open>
  The instance at the odd byte count 11 on the 64-bit target: both arrays are 16 bytes.
\<close>

theorem C4_witness:
  "declarable Win64 11 \<and>
   map_option sizeof (typeof_member (INTERNAL_BSTR_CONTAINER Win64 11) bstr_path) = Some 16 \<and>
   map_option sizeof (typeof_member (INTERNAL_BSTR_CONTAINER Win64 11) bytestr_path) = Some 16"
proof -
  have d: "declarable Win64 11"
    by (simp add: declarable_def bstr_count_def bytestr_count_def size_t_def size_t_not_def sizeof_WCHAR_def)
  have "round_up Win64 11 (sizeof_int3264 Win64) = 16"
    by (simp add: round_up_def size_t_def size_t_not_def)
  with d C4_union_members_same_size [OF d] show ?thesis by simp
qed

text \<open>
  C5 (amended). For every requested byte count that gives a declarable container,
  placed at an address aligned as the container type requires: the buffer starts at an
  address aligned to the native word size (8 bytes on the 64-bit target, 4 on the
  32-bit target); both buffer arrays start there; and the 32-bit \<^verbatim>\<open>length\<close> field
  occupies the 4 bytes right before the buffer. On the 64-bit target the prefix is 8
  bytes, aligned to 8 by \<^verbatim>\<open>alignment_dummy\<close>, with the 4-byte \<^verbatim>\<open>margin_dummy\<close> at offset 0 and
  \<^verbatim>\<open>length\<close> at offset 4; on the 32-bit target it is the bare 4-byte struct with \<^verbatim>\<open>length\<close>
  at offset 0. When the requested byte count is a \<^verbatim>\<open>size_t\<close> value (for the wide entry
  point: when \<open>bufcount * sizeof(WCHAR)\<close> is), the allocated buffer capacity is at least
  the requested one.
\<close>

theorem C5_layout:
  assumes "declarable t bytecount"
    and "alignof (INTERNAL_BSTR_CONTAINER t bytecount) dvd base"
  shows "sizeof_int3264 t dvd member_address (INTERNAL_BSTR_CONTAINER t bytecount) bstr_path base \<and>
         member_address (INTERNAL_BSTR_CONTAINER t bytecount) bytestr_path base
           = member_address (INTERNAL_BSTR_CONTAINER t bytecount) bstr_path base \<and>
         typeof_member (INTERNAL_BSTR_CONTAINER t bytecount) (length_path t) = Some ty_UINT \<and>
         sizeof ty_UINT = 4 \<and>
         member_address (INTERNAL_BSTR_CONTAINER t bytecount) (length_path t) base + 4
           = member_address (INTERNAL_BSTR_CONTAINER t bytecount) bstr_path base \<and>
         sizeof (INTERNAL_BSTR_CONTAINER t bytecount) = sizeof_int3264 t + bytestr_count t bytecount \<and>
         (t = Win64 \<longrightarrow>
            sizeof_int3264 t = 8 \<and>
            sizeof (snd (INTERNAL_BSTR_CONTAINER_LENGTH_PREFIX t)) = 8 \<and>
            alignof (snd (INTERNAL_BSTR_CONTAINER_LENGTH_PREFIX t)) = 8 \<and>
            offsetof (snd (INTERNAL_BSTR_CONTAINER_LENGTH_PREFIX t)) [''prefix'', ''margin_dummy''] = Some 0 \<and>
            offsetof (INTERNAL_BSTR_CONTAINER t bytecount) (length_path t) = Some 4) \<and>
         (t = Win32 \<longrightarrow>
            sizeof_int3264 t = 4 \<and>
            sizeof (snd (INTERNAL_BSTR_CONTAINER_LENGTH_PREFIX t)) = 4 \<and>
            offsetof (INTERNAL_BSTR_CONTAINER t bytecount) (length_path t) = Some 0) \<and>
         (bytecount < 2 ^ size_bits t \<longrightarrow>
            bytecount \<le> sizeof (Array ty_char (bytestr_count t bytecount)) \<and>
            bytecount \<le> sizeof (Array ty_WCHAR (bstr_count t bytecount))) \<and>
         (bytecount = bufcount * sizeof_WCHAR \<and> bufcount * sizeof_WCHAR < 2 ^ size_bits t \<longrightarrow>
            bufcount \<le> bstr_count t bytecount)"
proof -
  let ?C = "INTERNAL_BSTR_CONTAINER t bytecount"
  have 1: "sizeof_int3264 t dvd member_address ?C bstr_path base"
    using assms(2) by (simp add: alignof_container)
  have 2: "member_address ?C (length_path t) base + 4 = member_address ?C bstr_path base"
    using sizeof_UINT_le [of t] by (simp add: sizeof_UINT_def)
  have cap: "bytecount \<le> sizeof (Array ty_char (bytestr_count t bytecount)) \<and>
      bytecount \<le> sizeof (Array ty_WCHAR (bstr_count t bytecount))"
    if b: "bytecount < 2 ^ size_bits t"
  proof -
    have nw: "bytecount + sizeof_int3264 t < 2 ^ size_bits t"
      using b assms(1) by (simp add: declarable_iff)
    show ?thesis
      using bytestr_count_bounds(1) [OF nw] declarable_twice [OF assms(1)]
      by (simp add: ty_char_def ty_WCHAR_def)
  qed
  have wide: "bufcount \<le> bstr_count t bytecount"
    if "bytecount = bufcount * sizeof_WCHAR" "bufcount * sizeof_WCHAR < 2 ^ size_bits t"
  proof -
    have "bytecount \<le> sizeof (Array ty_WCHAR (bstr_count t bytecount))"
      using cap that by simp
    then have "bufcount * 2 \<le> bstr_count t bytecount * 2"
      using that(1) by (simp add: ty_WCHAR_def sizeof_WCHAR_def)
    then show ?thesis by simp
  qed
  have ol: "offsetof ?C (length_path t) = Some (sizeof_int3264 t - sizeof_UINT)"
    by (rule offsetof_length)
  have 5: "t = Win64 \<longrightarrow>
            sizeof_int3264 t = 8 \<and>
            sizeof (snd (INTERNAL_BSTR_CONTAINER_LENGTH_PREFIX t)) = 8 \<and>
            alignof (snd (INTERNAL_BSTR_CONTAINER_LENGTH_PREFIX t)) = 8 \<and>
            offsetof (snd (INTERNAL_BSTR_CONTAINER_LENGTH_PREFIX t)) [''prefix'', ''margin_dummy''] = Some 0 \<and>
            offsetof ?C (length_path t) = Some 4"
    using ol by (auto simp add: ty_defs)
  have 6: "t = Win32 \<longrightarrow>
            sizeof_int3264 t = 4 \<and>
            sizeof (snd (INTERNAL_BSTR_CONTAINER_LENGTH_PREFIX t)) = 4 \<and>
            offsetof ?C (length_path t) = Some 0"
    using ol by (auto simp add: ty_defs)
  have 7: "sizeof ty_UINT = 4" by (simp add: ty_defs)
  have 8: "member_address ?C bytestr_path base = member_address ?C bstr_path base"
    by simp
  have 9: "typeof_member ?C (length_path t) = Some ty_UINT"
    by (rule typeof_length)
  have 10: "sizeof ?C = sizeof_int3264 t + bytestr_count t bytecount"
    by (rule sizeof_container_declarable [OF assms(1)])
  from 1 8 9 7 2 10 5 6 cap wide show ?thesis by blast
qed

text \<open>
  The instance for 22 requested bytes (11 wide characters) at address 65536 on the
  64-bit target: the buffer is at 65544, the length field at 65540, the buffer has 24
  bytes and the container 32.
\<close>

theorem C5_witness:
  "declarable Win64 22 \<and>
   alignof (INTERNAL_BSTR_CONTAINER Win64 22) dvd 65536 \<and>
   (8 :: nat) dvd member_address (INTERNAL_BSTR_CONTAINER Win64 22) bstr_path 65536 \<and>
   member_address (INTERNAL_BSTR_CONTAINER Win64 22) (length_path Win64) 65536 + 4
     = member_address (INTERNAL_BSTR_CONTAINER Win64 22) bstr_path 65536 \<and>
   sizeof (INTERNAL_BSTR_CONTAINER Win64 22) = 32 \<and>
   (22 :: nat) < 2 ^ size_bits Win64 \<and>
   22 \<le> sizeof (Array ty_char (bytestr_count Win64 22)) \<and>
   22 = 11 * sizeof_WCHAR \<and>
   11 \<le> bstr_count Win64 22"
proof -
  have a: "(22 :: nat) < 2 ^ size_bits Win64" by simp
  have d: "declarable Win64 22" by (simp add: declarable_iff)
  have b: "alignof (INTERNAL_BSTR_CONTAINER Win64 22) dvd 65536"
    by (simp add: alignof_container)
  have c: "bytestr_count Win64 22 = 24"
    by (simp add: bytestr_count_def size_t_def size_t_not_def)
  show ?thesis
    using a d b c C5_layout [OF d b, of 11] by (simp add: sizeof_WCHAR_def)
qed

text \<open>
  C5 as stated fails for a requested capacity beyond \<^verbatim>\<open>size_t\<close>: the byte count wraps
  around and the container is declared with a small buffer. On the 64-bit target
  \<^verbatim>\<open>BSTR_CONTAINER\<close> for \<open>2 ^ 63 + 3\<close> wide characters has a buffer of 8 bytes, 4 wide
  characters; on the 32-bit target \<^verbatim>\<open>BSTR_BYTE_CONTAINER\<close> for \<^verbatim>\<open>0x200000006\<close> bytes has a
  buffer of 8 bytes.
\<close>

theorem C5_counterexample:
  "declarable Win64 (9223372036854775811 * sizeof_WCHAR) \<and>
   alignof (BSTR_CONTAINER Win64 9223372036854775811) dvd 65536 \<and>
   sizeof (Array ty_char (bytestr_count Win64 (9223372036854775811 * sizeof_WCHAR))) = 8 \<and>
   sizeof (Array ty_WCHAR (bstr_count Win64 (9223372036854775811 * sizeof_WCHAR))) = 8 \<and>
   bstr_count Win64 (9223372036854775811 * sizeof_WCHAR) = 4 \<and>
   (4 :: nat) < 9223372036854775811 \<and>
   declarable Win32 8589934598 \<and>
   alignof (BSTR_BYTE_CONTAINER Win32 8589934598) dvd 65536 \<and>
   sizeof (Array ty_char (bytestr_count Win32 8589934598)) = 8 \<and>
   sizeof (Array ty_WCHAR (bstr_count Win32 8589934598)) = 8 \<and>
   (8 :: nat) < 8589934598"
proof -
  have s: "size_t Win64 (9223372036854775811 * sizeof_WCHAR) = 6" "size_t Win32 8589934598 = 6"
    by (simp_all add: size_t_def sizeof_WCHAR_def)
  have d6: "declarable Win64 6" "declarable Win32 6"
    by (simp_all add: declarable_iff)
  have b6: "bytestr_count Win64 6 = 8" "bstr_count Win64 6 = 4"
    "bytestr_count Win32 6 = 8" "bstr_count Win32 6 = 4"
    by (simp_all add: bytestr_count_nowrap bstr_count_nowrap)
  have d: "declarable Win64 (9223372036854775811 * sizeof_WCHAR)" "declarable Win32 8589934598"
    using d6 counts_size_t(3) [of Win64 "9223372036854775811 * sizeof_WCHAR"]
      counts_size_t(3) [of Win32 8589934598]
    by (simp_all only: s)
  have b: "bytestr_count Win64 (9223372036854775811 * sizeof_WCHAR) = 8"
    "bstr_count Win64 (9223372036854775811 * sizeof_WCHAR) = 4"
    "bytestr_count Win32 8589934598 = 8" "bstr_count Win32 8589934598 = 4"
    using b6 counts_size_t(1,2) [of Win64 "9223372036854775811 * sizeof_WCHAR"]
      counts_size_t(1,2) [of Win32 8589934598]
    by (simp_all only: s)
  have al: "alignof (BSTR_CONTAINER Win64 9223372036854775811) dvd 65536"
    "alignof (BSTR_BYTE_CONTAINER Win32 8589934598) dvd 65536"
    by (simp_all add: BSTR_CONTAINER_def BSTR_BYTE_CONTAINER_def alignof_container)
  show ?thesis
    using d al b by (simp add: ty_char_def ty_WCHAR_def sizeof_WCHAR_def)
qed

text \<open>
  C6. Executing a scoped declaration wrapper (\<^verbatim>\<open>MAKE_BSTR\<close>, \<^verbatim>\<open>MAKE_INITIALIZED_BSTR\<close>,
  \<^verbatim>\<open>MAKE_BSTR_BYTE\<close>, \<^verbatim>\<open>MAKE_INITIALIZED_BSTR_BYTE\<close>) leaves the memory as it finds it and
  yields the handle of the same static container whatever the memory holds: the
  expansion only assigns the handle. So a second execution at the same call site
  observes the content and the length prefix that the first one, and the caller after
  it, left behind.
\<close>

theorem C6_wrapper_reuses_static_container:
  "snd (MAKE_BSTR t base n mem) = mem \<and>
   fst (MAKE_BSTR t base n mem) = fst (MAKE_BSTR t base n mem0) \<and>
   snd (MAKE_INITIALIZED_BSTR t base n mem) = mem \<and>
   fst (MAKE_INITIALIZED_BSTR t base n mem) = fst (MAKE_INITIALIZED_BSTR t base n mem0) \<and>
   snd (MAKE_BSTR_BYTE t base n mem) = mem \<and>
   fst (MAKE_BSTR_BYTE t base n mem) = fst (MAKE_BSTR_BYTE t base n mem0) \<and>
   snd (MAKE_INITIALIZED_BSTR_BYTE t base n mem) = mem \<and>
   fst (MAKE_INITIALIZED_BSTR_BYTE t base n mem) = fst (MAKE_INITIALIZED_BSTR_BYTE t base n mem0)"
  by (simp add: MAKE_BSTR_def MAKE_INITIALIZED_BSTR_def MAKE_BSTR_BYTE_def
      MAKE_INITIALIZED_BSTR_BYTE_def)

text \<open>
  The reentrancy scenario: the static container of \<^verbatim>\<open>MAKE_INITIALIZED_BSTR\<close> is
  initialised with capacity 11 and \<^verbatim>\<open>L"1234567890"\<close> at program start; the expansion is
  executed, the caller sets the length to 9, the expansion is executed again. The second
  handle is the first, and its length is 9, not the initial 10.
\<close>

theorem C6_witness:
  "fst (MAKE_INITIALIZED_BSTR Win64 65536 11
          (SET_BSTR_LEN
             (snd (MAKE_INITIALIZED_BSTR Win64 65536 11
                (MAKE_INITIALIZED_BSTR_startup Win64 65536 11
                   (wide_string_literal ''1234567890'') zero_memory)))
             (fst (MAKE_INITIALIZED_BSTR Win64 65536 11
                (MAKE_INITIALIZED_BSTR_startup Win64 65536 11
                   (wide_string_literal ''1234567890'') zero_memory)))
             9))
     = fst (MAKE_INITIALIZED_BSTR Win64 65536 11
              (MAKE_INITIALIZED_BSTR_startup Win64 65536 11
                 (wide_string_literal ''1234567890'') zero_memory)) \<and>
   unat (GET_BSTR_LEN
          (snd (MAKE_INITIALIZED_BSTR Win64 65536 11
             (SET_BSTR_LEN
                (snd (MAKE_INITIALIZED_BSTR Win64 65536 11
                   (MAKE_INITIALIZED_BSTR_startup Win64 65536 11
                      (wide_string_literal ''1234567890'') zero_memory)))
                (fst (MAKE_INITIALIZED_BSTR Win64 65536 11
                   (MAKE_INITIALIZED_BSTR_startup Win64 65536 11
                      (wide_string_literal ''1234567890'') zero_memory)))
                9)))
          (fst (MAKE_INITIALIZED_BSTR Win64 65536 11
             (MAKE_INITIALIZED_BSTR_startup Win64 65536 11
                (wide_string_literal ''1234567890'') zero_memory)))) = 9"
proof -
  let ?m0 = "MAKE_INITIALIZED_BSTR_startup Win64 65536 11
               (wide_string_literal ''1234567890'') zero_memory"
  let ?h1 = "fst (MAKE_INITIALIZED_BSTR Win64 65536 11 ?m0)"
  let ?m2 = "SET_BSTR_LEN (snd (MAKE_INITIALIZED_BSTR Win64 65536 11 ?m0)) ?h1 9"
  have "snd (MAKE_INITIALIZED_BSTR Win64 65536 11 ?m2) = ?m2"
    and "fst (MAKE_INITIALIZED_BSTR Win64 65536 11 ?m2) = ?h1"
    using C6_wrapper_reuses_static_container [of Win64 65536 11 ?m2 ?m0] by blast+
  moreover have "unat (GET_BSTR_LEN ?m2 ?h1) = 9"
    by (simp add: unat_GET_LEN_SET_LEN sizeof_WCHAR_def)
  ultimately show ?thesis by (simp only:)
qed

text \<open>
  C7 (amended). For a value-initialised container whose initializer is shorter than
  the declared capacity, every buffer byte past the initializer is zero. When the
  declared capacity is at most \<open>2 ^ 31\<close> wide characters, or \<open>2 ^ 32\<close> bytes in byte mode,
  the stored length prefix is the declared capacity minus one, times the character
  size in wide mode. For every capacity the prefix is the same whatever the
  initializer: the construction never derives the length from the initializer.
\<close>

theorem C7_partial_initializer:
  "(length init < bufcount \<and> (bufcount - 1) * sizeof_WCHAR < 2 ^ 32 \<longrightarrow>
      unat (GET_BSTR_BYTE_LEN (INITIALIZED_BSTR_CONTAINER t base bufcount init mem)
              (member_address (BSTR_CONTAINER t bufcount) bstr_path base))
        = (bufcount - 1) * sizeof_WCHAR) \<and>
   (length binit < bufsize \<and> bufsize \<le> 2 ^ 32 \<longrightarrow>
      unat (GET_BSTR_BYTE_LEN (INITIALIZED_BSTR_BYTE_CONTAINER t base bufsize binit mem)
              (member_address (BSTR_BYTE_CONTAINER t bufsize) bstr_path base))
        = bufsize - 1) \<and>
   GET_BSTR_BYTE_LEN (INITIALIZED_BSTR_CONTAINER t base bufcount init mem)
       (member_address (BSTR_CONTAINER t bufcount) bstr_path base)
     = GET_BSTR_BYTE_LEN (INITIALIZED_BSTR_CONTAINER t base bufcount init' mem')
         (member_address (BSTR_CONTAINER t bufcount) bstr_path base) \<and>
   GET_BSTR_BYTE_LEN (INITIALIZED_BSTR_BYTE_CONTAINER t base bufsize binit mem)
       (member_address (BSTR_BYTE_CONTAINER t bufsize) bstr_path base)
     = GET_BSTR_BYTE_LEN (INITIALIZED_BSTR_BYTE_CONTAINER t base bufsize binit' mem')
         (member_address (BSTR_BYTE_CONTAINER t bufsize) bstr_path base) \<and>
   (length init < bufcount \<and> length init * sizeof_WCHAR \<le> i \<and>
    i < bytestr_count t (bufcount * sizeof_WCHAR) \<longrightarrow>
      INITIALIZED_BSTR_CONTAINER t base bufcount init mem
        (member_address (BSTR_CONTAINER t bufcount) bstr_path base + i) = 0) \<and>
   (length binit < bufsize \<and> length binit \<le> i \<and> i < bytestr_count t bufsize \<longrightarrow>
      INITIALIZED_BSTR_BYTE_CONTAINER t base bufsize binit mem
        (member_address (BSTR_BYTE_CONTAINER t bufsize) bytestr_path base + i) = 0)"
proof -
  have 1: "unat (GET_BSTR_BYTE_LEN (INITIALIZED_BSTR_CONTAINER t base bufcount init mem)
              (member_address (BSTR_CONTAINER t bufcount) bstr_path base))
        = (bufcount - 1) * sizeof_WCHAR"
    if "length init < bufcount" "(bufcount - 1) * sizeof_WCHAR < 2 ^ 32"
  proof -
    have "1 \<le> bufcount" using that(1) by linarith
    then show ?thesis
      using that(2) by (simp add: INITIALIZED_BSTR_CONTAINER_length unat_UINT_pred_twice)
  qed
  have 2: "unat (GET_BSTR_BYTE_LEN (INITIALIZED_BSTR_BYTE_CONTAINER t base bufsize binit mem)
              (member_address (BSTR_BYTE_CONTAINER t bufsize) bstr_path base))
        = bufsize - 1"
    if "length binit < bufsize" "bufsize \<le> 2 ^ 32"
  proof -
    have "1 \<le> bufsize" using that(1) by linarith
    then show ?thesis
      using that(2) by (simp add: INITIALIZED_BSTR_BYTE_CONTAINER_length unat_UINT_pred)
  qed
  have 3: "GET_BSTR_BYTE_LEN (INITIALIZED_BSTR_CONTAINER t base bufcount init mem)
       (member_address (BSTR_CONTAINER t bufcount) bstr_path base)
     = GET_BSTR_BYTE_LEN (INITIALIZED_BSTR_CONTAINER t base bufcount init' mem')
         (member_address (BSTR_CONTAINER t bufcount) bstr_path base)"
    by (simp add: INITIALIZED_BSTR_CONTAINER_length)
  have 4: "GET_BSTR_BYTE_LEN (INITIALIZED_BSTR_BYTE_CONTAINER t base bufsize binit mem)
       (member_address (BSTR_BYTE_CONTAINER t bufsize) bstr_path base)
     = GET_BSTR_BYTE_LEN (INITIALIZED_BSTR_BYTE_CONTAINER t base bufsize binit' mem')
         (member_address (BSTR_BYTE_CONTAINER t bufsize) bstr_path base)"
    by (simp add: INITIALIZED_BSTR_BYTE_CONTAINER_length)
  have 5: "INITIALIZED_BSTR_CONTAINER t base bufcount init mem
        (member_address (BSTR_CONTAINER t bufcount) bstr_path base + i) = 0"
    if "length init * sizeof_WCHAR \<le> i" "i < bytestr_count t (bufcount * sizeof_WCHAR)"
    using that by (simp add: INITIALIZED_BSTR_CONTAINER_tail)
  have 6: "INITIALIZED_BSTR_BYTE_CONTAINER t base bufsize binit mem
        (member_address (BSTR_BYTE_CONTAINER t bufsize) bytestr_path base + i) = 0"
    if "length binit \<le> i" "i < bytestr_count t bufsize"
    using that by (simp add: INITIALIZED_BSTR_BYTE_CONTAINER_tail BSTR_BYTE_CONTAINER_def)
  from 1 2 3 4 5 6 show ?thesis by blast
qed

text \<open>
  The instance for capacity 11 and the initializers \<^verbatim>\<open>L"ab"\<close> and \<^verbatim>\<open>"ab"\<close>: the prefixes are
  20 and 10, the byte after the initializer is zero.
\<close>

theorem C7_witness:
  "length (wide_string_literal ''ab'') < 11 \<and> (11 - 1) * sizeof_WCHAR < 2 ^ 32 \<and>
   unat (GET_BSTR_BYTE_LEN
          (INITIALIZED_BSTR_CONTAINER Win64 65536 11 (wide_string_literal ''ab'') zero_memory)
          (member_address (BSTR_CONTAINER Win64 11) bstr_path 65536)) = 20 \<and>
   unat (GET_BSTR_BYTE_LEN
          (INITIALIZED_BSTR_BYTE_CONTAINER Win64 65536 11 (byte_string_literal ''ab'') zero_memory)
          (member_address (BSTR_BYTE_CONTAINER Win64 11) bstr_path 65536)) = 10 \<and>
   INITIALIZED_BSTR_CONTAINER Win64 65536 11 (wide_string_literal ''ab'') zero_memory
     (member_address (BSTR_CONTAINER Win64 11) bstr_path 65536 + 6) = 0 \<and>
   INITIALIZED_BSTR_BYTE_CONTAINER Win64 65536 11 (byte_string_literal ''ab'') zero_memory
     (member_address (BSTR_BYTE_CONTAINER Win64 11) bytestr_path 65536 + 3) = 0"
proof -
  have b: "bytestr_count Win64 (11 * sizeof_WCHAR) = 24" "bytestr_count Win64 11 = 16"
    by (simp_all add: bytestr_count_def size_t_def size_t_not_def sizeof_WCHAR_def)
  show ?thesis
    using b
      C7_partial_initializer [of "wide_string_literal ''ab''" 11 Win64 65536 zero_memory
        "byte_string_literal ''ab''" 11 "[]" zero_memory "[]" 6]
      C7_partial_initializer [of "wide_string_literal ''ab''" 11 Win64 65536 zero_memory
        "byte_string_literal ''ab''" 11 "[]" zero_memory "[]" 3]
    by (simp add: wide_string_literal_def byte_string_literal_def sizeof_WCHAR_def)
qed

text \<open>
  C7 as stated fails on the 64-bit target for a capacity beyond these bounds. With the
  initializer \<^verbatim>\<open>L""\<close> and the declared capacity \<open>2 ^ 31 + 1\<close> the stored prefix is 0, not
  \<open>2 ^ 31 * sizeof(WCHAR) = 2 ^ 32\<close>; with the initializer \<^verbatim>\<open>""\<close> and the declared byte
  capacity \<open>2 ^ 32 + 1\<close> it is 0, not \<open>2 ^ 32\<close>.
\<close>

theorem C7_counterexample:
  "declarable Win64 (2147483649 * sizeof_WCHAR) \<and>
   length (wide_string_literal []) < 2147483649 \<and>
   unat (GET_BSTR_BYTE_LEN
          (INITIALIZED_BSTR_CONTAINER Win64 65536 2147483649 (wide_string_literal []) zero_memory)
          (member_address (BSTR_CONTAINER Win64 2147483649) bstr_path 65536)) = 0 \<and>
   (2147483649 - 1) * sizeof_WCHAR = (4294967296 :: nat) \<and>
   declarable Win64 4294967297 \<and>
   length (byte_string_literal []) < 4294967297 \<and>
   unat (GET_BSTR_BYTE_LEN
          (INITIALIZED_BSTR_BYTE_CONTAINER Win64 65536 4294967297 (byte_string_literal []) zero_memory)
          (member_address (BSTR_BYTE_CONTAINER Win64 4294967297) bstr_path 65536)) = 0"
proof -
  have d: "declarable Win64 (2147483649 * sizeof_WCHAR)" "declarable Win64 4294967297"
    by (simp_all add: declarable_iff sizeof_WCHAR_def)
  show ?thesis
    using d
      INITIALIZED_BSTR_CONTAINER_length [of Win64 65536 2147483649 "wide_string_literal []" zero_memory]
      INITIALIZED_BSTR_BYTE_CONTAINER_length [of Win64 65536 4294967297 "byte_string_literal []" zero_memory]
    by (simp add: sizeof_WCHAR_def wide_string_literal_def byte_string_literal_def)
qed

text \<open>
  C8. The container of \<^verbatim>\<open>MAKE_BSTR\<close> or \<^verbatim>\<open>MAKE_BSTR_BYTE\<close> is static and has no
  initializer: it is zero-initialised at program start. Before any write the wrapper
  yields a handle whose length prefix is 0 and whose buffer is all zero, so
  \<^verbatim>\<open>GET_BSTR_LEN\<close> and \<^verbatim>\<open>GET_BSTR_BYTE_LEN\<close> return 0.
\<close>

theorem C8_static_uninitialized_is_zero:
  "(MAKE_BSTR t base bufcount (MAKE_BSTR_startup t base bufcount mem) = (h, m) \<longrightarrow>
      GET_BSTR_LEN m h = 0 \<and> GET_BSTR_BYTE_LEN m h = 0 \<and>
      (\<forall>i < bytestr_count t (bufcount * sizeof_WCHAR). m (h + i) = 0)) \<and>
   (MAKE_BSTR_BYTE t base bufsize (MAKE_BSTR_BYTE_startup t base bufsize mem) = (h', m') \<longrightarrow>
      GET_BSTR_LEN m' h' = 0 \<and> GET_BSTR_BYTE_LEN m' h' = 0 \<and>
      (\<forall>i < bytestr_count t bufsize. m' (h' + i) = 0))"
  by (auto simp add: MAKE_BSTR_def MAKE_BSTR_BYTE_def MAKE_BSTR_startup_eq GET_LEN_BYTE_LEN
      zero_object_length zero_object_buffer)

text \<open>
  The instance for the 39 wide characters of the demonstration program, and for 11
  bytes on the 32-bit target.
\<close>

theorem C8_witness:
  "GET_BSTR_LEN (snd (MAKE_BSTR Win64 65536 39 (MAKE_BSTR_startup Win64 65536 39 zero_memory)))
     (fst (MAKE_BSTR Win64 65536 39 (MAKE_BSTR_startup Win64 65536 39 zero_memory))) = 0 \<and>
   GET_BSTR_BYTE_LEN (snd (MAKE_BSTR_BYTE Win32 65536 11 (MAKE_BSTR_BYTE_startup Win32 65536 11 zero_memory)))
     (fst (MAKE_BSTR_BYTE Win32 65536 11 (MAKE_BSTR_BYTE_startup Win32 65536 11 zero_memory))) = 0 \<and>
   snd (MAKE_BSTR Win64 65536 39 (MAKE_BSTR_startup Win64 65536 39 zero_memory))
     (fst (MAKE_BSTR Win64 65536 39 (MAKE_BSTR_startup Win64 65536 39 zero_memory)) + 77) = 0"
proof -
  have b: "(77 :: nat) < bytestr_count Win64 (39 * sizeof_WCHAR)"
    by (simp add: bytestr_count_def size_t_def size_t_not_def sizeof_WCHAR_def)
  show ?thesis
    using b
      C8_static_uninitialized_is_zero [of Win64 65536 39 zero_memory
        "fst (MAKE_BSTR Win64 65536 39 (MAKE_BSTR_startup Win64 65536 39 zero_memory))"
        "snd (MAKE_BSTR Win64 65536 39 (MAKE_BSTR_startup Win64 65536 39 zero_memory))"
        11 "fst (MAKE_BSTR_BYTE Win64 65536 11 (MAKE_BSTR_BYTE_startup Win64 65536 11 zero_memory))"
        "snd (MAKE_BSTR_BYTE Win64 65536 11 (MAKE_BSTR_BYTE_startup Win64 65536 11 zero_memory))"]
      C8_static_uninitialized_is_zero [of Win32 65536 39 zero_memory
        "fst (MAKE_BSTR Win32 65536 39 (MAKE_BSTR_startup Win32 65536 39 zero_memory))"
        "snd (MAKE_BSTR Win32 65536 39 (MAKE_BSTR_startup Win32 65536 39 zero_memory))"
        11 "fst (MAKE_BSTR_BYTE Win32 65536 11 (MAKE_BSTR_BYTE_startup Win32 65536 11 zero_memory))"
        "snd (MAKE_BSTR_BYTE Win32 65536 11 (MAKE_BSTR_BYTE_startup Win32 65536 11 zero_memory))"]
    by simp
qed

text \<open>
  C9 (amended). The wide and the byte accessors are coherent on one handle. After
  \<^verbatim>\<open>SET_BSTR_BYTE_LEN(handle, n)\<close>, \<^verbatim>\<open>GET_BSTR_LEN(handle)\<close> returns \<open>n\<close> truncated to 32
  bits and then divided by \<^verbatim>\<open>sizeof(WCHAR)\<close>; after \<^verbatim>\<open>SET_BSTR_LEN(handle, len)\<close>,
  \<^verbatim>\<open>GET_BSTR_BYTE_LEN(handle)\<close> returns \<open>len * sizeof(WCHAR)\<close> truncated to 32 bits. The
  wide get is the byte get divided by the character size, the wide set is the byte set
  of the length multiplied by it.
\<close>

theorem C9_accessors_coherent:
  "unat (GET_BSTR_LEN (SET_BSTR_BYTE_LEN mem h n) h) = (n mod 2 ^ 32) div sizeof_WCHAR \<and>
   unat (GET_BSTR_BYTE_LEN (SET_BSTR_LEN mem h len) h) = (len * sizeof_WCHAR) mod 2 ^ 32 \<and>
   unat (GET_BSTR_LEN mem h) = unat (GET_BSTR_BYTE_LEN mem h) div sizeof_WCHAR \<and>
   SET_BSTR_LEN mem h len = SET_BSTR_BYTE_LEN mem h (len * sizeof_WCHAR)"
  using unat_GET_LEN_SET_BYTE_LEN [of mem h n] unat_GET_BYTE_SET_LEN [of mem h len]
    unat_GET_LEN [of mem h] SET_LEN_BYTE_LEN [of mem h len]
  by (simp only: simp_thms)

text \<open>
  C9 as stated fails for a byte count beyond 32 bits: after
  \<^verbatim>\<open>SET_BSTR_BYTE_LEN(handle, 0x100000002)\<close> the wide length read back is 1, not
  \<open>0x100000002 / sizeof(WCHAR) = 0x80000001\<close>.
\<close>

theorem C9_counterexample:
  "unat (GET_BSTR_LEN (SET_BSTR_BYTE_LEN zero_memory 65544 4294967298) 65544) = 1 \<and>
   4294967298 div sizeof_WCHAR = (2147483649 :: nat)"
  by (simp add: unat_GET_LEN_SET_BYTE_LEN sizeof_WCHAR_def)

text \<open>
  C10. The set-length macros write only the four bytes of the length prefix right
  before the handle. For a handle with room for the prefix before it, every byte at an
  address below \<open>handle - sizeof(UINT)\<close> or from \<open>handle\<close> on is what it was. For the
  handle of a container, every byte outside the \<^verbatim>\<open>length\<close> field is what it was: every
  byte of the buffer and of any other field of the container.
\<close>

theorem C10_set_length_frame:
  "(sizeof_UINT \<le> h \<and> (a < h - sizeof_UINT \<or> h \<le> a) \<longrightarrow>
      SET_BSTR_LEN mem h len a = mem a \<and> SET_BSTR_BYTE_LEN mem h len a = mem a) \<and>
   (h = member_address (INTERNAL_BSTR_CONTAINER t bytecount) bstr_path base \<and>
    (a < member_address (INTERNAL_BSTR_CONTAINER t bytecount) (length_path t) base \<or>
     member_address (INTERNAL_BSTR_CONTAINER t bytecount) (length_path t) base + sizeof_UINT \<le> a)
    \<longrightarrow>
      SET_BSTR_LEN mem h len a = mem a \<and> SET_BSTR_BYTE_LEN mem h len a = mem a)"
proof -
  have 1: "SET_BSTR_LEN mem h len a = mem a \<and> SET_BSTR_BYTE_LEN mem h len a = mem a"
    if "sizeof_UINT \<le> h" "a < h - sizeof_UINT \<or> h \<le> a"
    using that by (simp add: SET_BSTR_LEN_def SET_BSTR_BYTE_LEN_def store_UINT_frame)
  have 2: "SET_BSTR_LEN mem h len a = mem a \<and> SET_BSTR_BYTE_LEN mem h len a = mem a"
    if h: "h = member_address (INTERNAL_BSTR_CONTAINER t bytecount) bstr_path base"
      and a: "a < member_address (INTERNAL_BSTR_CONTAINER t bytecount) (length_path t) base \<or>
        member_address (INTERNAL_BSTR_CONTAINER t bytecount) (length_path t) base + sizeof_UINT \<le> a"
  proof (rule 1)
    show "sizeof_UINT \<le> h"
      using sizeof_UINT_le [of t] by (simp add: h)
    show "a < h - sizeof_UINT \<or> h \<le> a"
      using a sizeof_UINT_le [of t] by (simp add: h)
  qed
  show ?thesis using 1 2 by blast
qed

text \<open>
  The instance for the container initialised with capacity 11 and \<^verbatim>\<open>L"1234567890"\<close> at
  address 65536 on the 64-bit target, whose handle is 65544: the first buffer byte and
  the first byte of \<^verbatim>\<open>margin_dummy\<close> are unchanged by both set macros.
\<close>

theorem C10_witness:
  "sizeof_UINT \<le> 65544 \<and>
   member_address (INTERNAL_BSTR_CONTAINER Win64 22) bstr_path 65536 = 65544 \<and>
   SET_BSTR_LEN
     (INITIALIZED_BSTR_CONTAINER Win64 65536 11 (wide_string_literal ''1234567890'') zero_memory)
     65544 9 65544
     = INITIALIZED_BSTR_CONTAINER Win64 65536 11 (wide_string_literal ''1234567890'') zero_memory
         65544 \<and>
   SET_BSTR_BYTE_LEN
     (INITIALIZED_BSTR_CONTAINER Win64 65536 11 (wide_string_literal ''1234567890'') zero_memory)
     65544 18 65536
     = INITIALIZED_BSTR_CONTAINER Win64 65536 11 (wide_string_literal ''1234567890'') zero_memory
         65536"
proof -
  let ?m = "INITIALIZED_BSTR_CONTAINER Win64 65536 11 (wide_string_literal ''1234567890'')
              zero_memory"
  have h: "sizeof_UINT \<le> 65544" by (simp add: sizeof_UINT_def)
  have a: "member_address (INTERNAL_BSTR_CONTAINER Win64 22) bstr_path 65536 = 65544" by simp
  show ?thesis
    using h a C10_set_length_frame [of 65544 65544 ?m 9 Win64 22 65536]
      C10_set_length_frame [of 65544 65536 ?m 18 Win64 22 65536]
    by (simp add: sizeof_UINT_def)
qed

end
